theory Spec2Isabelle
  imports Complex_Main
begin

section \<open>Python floats\<close>

text \<open>
  A Python \<open>float\<close> is an IEEE 754 double: a finite value, which is a rational, an
  infinity or NaN. The sign of zero is not kept; no operation modelled here tells
  \<open>-0.0\<close> from \<open>0.0\<close>.
\<close>

datatype pyfloat = Finite rat | PosInf | NegInf | NaN

definition pow2 :: "int \<Rightarrow> rat" where
  "pow2 e = (if 0 \<le> e then 2 ^ nat e else 1 / 2 ^ nat (- e))"

text \<open>\<open>ilog2 n\<close> is the position of the leading bit of \<open>n\<close>.\<close>

fun ilog2 :: "nat \<Rightarrow> nat" where
  "ilog2 n = (if n < 2 then 0 else Suc (ilog2 (n div 2)))"

declare ilog2.simps [simp del]

text \<open>The exponent \<open>k\<close> with \<open>2 ^ k \<le> a < 2 ^ (k + 1)\<close>, for \<open>a > 0\<close>.\<close>

definition floor_log2 :: "rat \<Rightarrow> int" where
  "floor_log2 a = (if 1 \<le> a then int (ilog2 (nat \<lfloor>a\<rfloor>))
                   else - int (ilog2 (nat (\<lceil>1 / a\<rceil> - 1)) + 1))"

definition round_half_even :: "rat \<Rightarrow> int" where
  "round_half_even x =
     (let f = \<lfloor>x\<rfloor>; d = x - of_int f
      in if d < 1 / 2 then f else if 1 / 2 < d then f + 1
         else if even f then f else f + 1)"

text \<open>
  Rounding a rational to the nearest double, ties to even: 53 significant bits, the
  least exponent \<open>-1074\<close> (subnormal numbers, underflow to zero), infinity from
  \<open>2 ^ 1024\<close> on.
\<close>

definition round_double :: "rat \<Rightarrow> pyfloat" where
  "round_double q =
     (if q = 0 then Finite 0
      else let a = \<bar>q\<bar>;
               e = max (floor_log2 a - 52) (- 1074);
               r = of_int (round_half_even (a / pow2 e)) * pow2 e
           in if pow2 1024 \<le> r then (if q < 0 then NegInf else PosInf)
              else Finite (if q < 0 then - r else r))"

fun fneg :: "pyfloat \<Rightarrow> pyfloat" where
  "fneg (Finite q) = Finite (- q)"
| "fneg PosInf = NegInf"
| "fneg NegInf = PosInf"
| "fneg NaN = NaN"

text \<open>\<open>x + y\<close> on floats.\<close>

fun fadd :: "pyfloat \<Rightarrow> pyfloat \<Rightarrow> pyfloat" where
  "fadd NaN y = NaN"
| "fadd x NaN = NaN"
| "fadd (Finite a) (Finite b) = round_double (a + b)"
| "fadd PosInf NegInf = NaN"
| "fadd NegInf PosInf = NaN"
| "fadd PosInf y = PosInf"
| "fadd NegInf y = NegInf"
| "fadd x PosInf = PosInf"
| "fadd x NegInf = NegInf"

text \<open>\<open>x < y\<close> on floats: false as soon as one side is NaN.\<close>

fun flt :: "pyfloat \<Rightarrow> pyfloat \<Rightarrow> bool" where
  "flt NaN y = False"
| "flt x NaN = False"
| "flt (Finite a) (Finite b) = (a < b)"
| "flt x NegInf = False"
| "flt PosInf y = False"
| "flt NegInf y = True"
| "flt x PosInf = True"

text \<open>\<open>x <= 0\<close> on floats.\<close>

fun le_zero :: "pyfloat \<Rightarrow> bool" where
  "le_zero (Finite q) = (q \<le> 0)"
| "le_zero PosInf = False"
| "le_zero NegInf = True"
| "le_zero NaN = False"

section \<open>The relational store behind \<open>models/user.py\<close>\<close>

text \<open>
  Money amounts are Python floats in the source. A row keeps the float it was given: the
  conversion to the column type is the server's and the schema is not part of the
  repository. Timestamps (\<open>created_at\<close>, \<open>updated_at\<close>) are maintained by the
  database and are left out.
\<close>

record user_row =
  r_id :: nat
  r_telegram_id :: int
  r_username :: "string option"
  r_first_name :: "string option"
  r_last_name :: "string option"
  r_is_admin :: bool
  r_is_vip :: bool
  r_vip_until :: "nat option"
  r_balance :: pyfloat

record tx_row =
  t_id :: nat
  t_user_id :: int
  t_amount :: pyfloat
  t_type :: string
  t_status :: string
  t_reference_id :: "string option"
  t_description :: "string option"

record bot_row =
  b_owner_id :: int
  b_bot_token :: string
  b_bot_username :: "string option"

record group_row =
  g_bot_id :: nat
  g_chat_id :: int
  g_chat_title :: "string option"
  g_chat_type :: string

record db =
  users :: "user_row list"
  transactions :: "tx_row list"
  managed_bots :: "bot_row list"
  managed_groups :: "group_row list"

text \<open>
  A connection holds the last committed database and the working copy of the open
  transaction. Whether the server rejects a call is not decided by the program: the
  connection carries the answers of the server to the coming fallible calls
  (\<open>conn.cursor()\<close>, \<open>cursor.execute\<close>, \<open>conn.commit()\<close>), one per call, \<open>True\<close>
  meaning that the call raises \<open>MySQLError\<close>; when the list is used up every call
  succeeds. AUTO_INCREMENT counters are not rolled back. \<open>conn.rollback()\<close> itself is
  taken not to raise.
\<close>

record conn =
  committed :: db
  working :: db
  faults :: "bool list"
  next_user_id :: nat
  next_tx_id :: nat

definition raises_next :: "conn \<Rightarrow> bool" where
  "raises_next c = (case faults c of [] \<Rightarrow> False | f # _ \<Rightarrow> f)"

definition tick :: "conn \<Rightarrow> conn" where
  "tick c = c\<lparr>faults := drop 1 (faults c)\<rparr>"

definition rollback :: "conn \<Rightarrow> conn" where
  "rollback c = c\<lparr>working := committed c\<rparr>"

definition commit :: "conn \<Rightarrow> conn" where
  "commit c = c\<lparr>committed := working c\<rparr>"

text \<open>The server accepts the next \<open>n\<close> fallible calls.\<close>

definition accepts :: "nat \<Rightarrow> conn \<Rightarrow> bool" where
  "accepts n c = (True \<notin> set (take n (faults c)))"

section \<open>\<open>User\<close> (models/user.py)\<close>

record user =
  user_id :: "nat option"
  telegram_id :: int
  username :: "string option"
  first_name :: "string option"
  last_name :: "string option"
  is_admin :: bool
  is_vip :: bool
  vip_until :: "nat option"
  balance :: pyfloat

definition insert_user :: "user \<Rightarrow> nat \<Rightarrow> db \<Rightarrow> db" where
  "insert_user u i d = d\<lparr>users := users d @
     [\<lparr>r_id = i, r_telegram_id = telegram_id u, r_username = username u,
       r_first_name = first_name u, r_last_name = last_name u, r_is_admin = is_admin u,
       r_is_vip = is_vip u, r_vip_until = vip_until u, r_balance = balance u\<rparr>]\<rparr>"

definition update_user :: "user \<Rightarrow> nat \<Rightarrow> db \<Rightarrow> db" where
  "update_user u i d = d\<lparr>users := map (\<lambda>r. if r_id r = i
       then r\<lparr>r_username := username u, r_first_name := first_name u,
              r_last_name := last_name u, r_is_admin := is_admin u, r_is_vip := is_vip u,
              r_vip_until := vip_until u, r_balance := balance u\<rparr>
       else r) (users d)\<rparr>"

text \<open>
  \<open>User.save\<close>: the whole body is inside \<open>try\<close>; \<open>MySQLError\<close> from the cursor, the
  statement or the commit leads to \<open>conn.rollback()\<close> and \<open>return False\<close>. A fresh id
  assigned to \<open>self.id\<close> before a failing commit stays assigned.
\<close>

definition save :: "user \<Rightarrow> conn \<Rightarrow> bool \<times> user \<times> conn" where
  "save u c =
    (if raises_next c then (False, u, rollback (tick c))
     else let c1 = tick c in
       if raises_next c1 then (False, u, rollback (tick c1))
       else let c2 = tick c1;
                (u1, c3) = (case user_id u of
                    None \<Rightarrow> (u\<lparr>user_id := Some (next_user_id c2)\<rparr>,
                             c2\<lparr>working := insert_user u (next_user_id c2) (working c2),
                                next_user_id := Suc (next_user_id c2)\<rparr>)
                  | Some i \<Rightarrow> (u, c2\<lparr>working := update_user u i (working c2)\<rparr>))
            in if raises_next c3 then (False, u1, rollback (tick c3))
               else (True, u1, commit (tick c3)))"

text \<open>
  The value \<open>add_balance\<close> returns: \<open>False\<close> or the id of the inserted ledger row.
\<close>

datatype result = RFalse | RId nat

fun falsy :: "result \<Rightarrow> bool" where
  "falsy RFalse = True"
| "falsy (RId n) = (n = 0)"

definition insert_tx :: "tx_row \<Rightarrow> db \<Rightarrow> db" where
  "insert_tx t d = d\<lparr>transactions := transactions d @ [t]\<rparr>"

text \<open>
  \<open>User.add_balance\<close>, for a float \<open>amount\<close>: \<open>self.balance += amount\<close> is a float
  addition and comes before the INSERT; the result of
  \<open>self.save(conn)\<close> is dropped; the \<open>except\<close> branch rolls the connection back and
  returns \<open>False\<close> without touching \<open>self\<close>.
\<close>

definition add_balance ::
  "user \<Rightarrow> conn \<Rightarrow> pyfloat \<Rightarrow> string \<Rightarrow> string option \<Rightarrow> string option \<Rightarrow> result \<times> user \<times> conn" where
  "add_balance u c amount transaction_type reference_id description =
    (if raises_next c then (RFalse, u, rollback (tick c))
     else let c1 = tick c;
              u1 = u\<lparr>balance := fadd (balance u) amount\<rparr>
       in if raises_next c1 then (RFalse, u1, rollback (tick c1))
          else let c2 = tick c1;
                   transaction_id = next_tx_id c2;
                   c3 = c2\<lparr>working := insert_tx
                           \<lparr>t_id = transaction_id, t_user_id = telegram_id u1,
                            t_amount = amount, t_type = transaction_type,
                            t_status = ''completed'', t_reference_id = reference_id,
                            t_description = description\<rparr> (working c2),
                          next_tx_id := Suc transaction_id\<rparr>;
                   (saved, u2, c4) = save u1 c3
               in if raises_next c4 then (RFalse, u2, rollback (tick c4))
                  else (RId transaction_id, u2, commit (tick c4)))"

definition remove_balance ::
  "user \<Rightarrow> conn \<Rightarrow> pyfloat \<Rightarrow> string \<Rightarrow> string option \<Rightarrow> string option \<Rightarrow> result \<times> user \<times> conn" where
  "remove_balance u c amount transaction_type reference_id description =
    (if flt (balance u) amount then (RFalse, u, c)
     else add_balance u c (fneg amount) transaction_type reference_id description)"

text \<open>Projections of the triple an operation returns.\<close>

definition res_of :: "'r \<times> user \<times> conn \<Rightarrow> 'r" where
  "res_of x = fst x"

definition user_of :: "'r \<times> user \<times> conn \<Rightarrow> user" where
  "user_of x = fst (snd x)"

definition conn_of :: "'r \<times> user \<times> conn \<Rightarrow> conn" where
  "conn_of x = snd (snd x)"

text \<open>
  Concrete inputs: a stored user with balance 10, two connections, and a stored user
  with balance \<open>1e16\<close>.
\<close>

definition empty_db :: db where
  "empty_db = \<lparr>users = [], transactions = [], managed_bots = [], managed_groups = []\<rparr>"

definition alice_row :: user_row where
  "alice_row = \<lparr>r_id = 1, r_telegram_id = 42, r_username = Some ''alice'',
     r_first_name = Some ''Alice'', r_last_name = None, r_is_admin = False,
     r_is_vip = False, r_vip_until = None, r_balance = Finite 10\<rparr>"

definition alice :: user where
  "alice = \<lparr>user_id = Some 1, telegram_id = 42, username = Some ''alice'',
     first_name = Some ''Alice'', last_name = None, is_admin = False, is_vip = False,
     vip_until = None, balance = Finite 10\<rparr>"

definition alice_db :: db where
  "alice_db = empty_db\<lparr>users := [alice_row]\<rparr>"

definition ok_conn :: conn where
  "ok_conn = \<lparr>committed = alice_db, working = alice_db, faults = [],
     next_user_id = 2, next_tx_id = 1\<rparr>"

definition failing_conn :: conn where
  "failing_conn = \<lparr>committed = alice_db, working = alice_db, faults = [False, True],
     next_user_id = 2, next_tx_id = 1\<rparr>"

definition rich_row :: user_row where
  "rich_row = alice_row\<lparr>r_balance := Finite (10 ^ 16)\<rparr>"

definition rich :: user where
  "rich = alice\<lparr>balance := Finite (10 ^ 16)\<rparr>"

definition rich_conn :: conn where
  "rich_conn = ok_conn\<lparr>committed := empty_db\<lparr>users := [rich_row]\<rparr>,
                       working := empty_db\<lparr>users := [rich_row]\<rparr>\<rparr>"

section \<open>Strings, \<open>re.match\<close>, \<open>float\<close> and \<open>int\<close>\<close>

text \<open>
  A Python \<open>str\<close> that reaches the program from outside (the text of a message) is a
  sequence of Unicode code points. The constants of the program are written as HOL
  strings and embedded by \<open>cps\<close>.
\<close>

type_synonym pystr = "nat list"

definition cps :: "string \<Rightarrow> pystr" where
  "cps s = map of_char s"

text \<open>
  The decimal digits of Unicode (general category Nd), as of Unicode 14.0, the table of
  CPython 3.11: 66 runs of ten consecutive code points, the digits 0 to 9 in order, each
  run given by the code point of its zero.
\<close>

definition nd_zeros :: "nat list" where
  "nd_zeros = [0x30, 0x660, 0x6F0, 0x7C0, 0x966, 0x9E6, 0xA66, 0xAE6, 0xB66, 0xBE6, 0xC66,
               0xCE6, 0xD66, 0xDE6, 0xE50, 0xED0, 0xF20, 0x1040, 0x1090, 0x17E0, 0x1810,
               0x1946, 0x19D0, 0x1A80, 0x1A90, 0x1B50, 0x1BB0, 0x1C40, 0x1C50, 0xA620, 0xA8D0,
               0xA900, 0xA9D0, 0xA9F0, 0xAA50, 0xABF0, 0xFF10, 0x104A0, 0x10D30, 0x11066,
               0x110F0, 0x11136, 0x111D0, 0x112F0, 0x11450, 0x114D0, 0x11650, 0x116C0,
               0x11730, 0x118E0, 0x11950, 0x11C50, 0x11D50, 0x11DA0, 0x16A60, 0x16AC0,
               0x16B50, 0x1D7CE, 0x1D7D8, 0x1D7E2, 0x1D7EC, 0x1D7F6, 0x1E140, 0x1E2F0,
               0x1E950, 0x1FBF0]"

definition decimal_value :: "nat \<Rightarrow> nat option" where
  "decimal_value cp = map_option (\<lambda>z. cp - z) (find (\<lambda>z. z \<le> cp \<and> cp < z + 10) nd_zeros)"

definition is_decimal :: "nat \<Rightarrow> bool" where
  "is_decimal cp = (decimal_value cp \<noteq> None)"

text \<open>The code points from 128 on that count as whitespace.\<close>

definition unicode_spaces :: "nat list" where
  "unicode_spaces = [0x85, 0xA0, 0x1680, 0x2000, 0x2001, 0x2002, 0x2003, 0x2004, 0x2005, 0x2006,
                     0x2007, 0x2008, 0x2009, 0x200A, 0x2028, 0x2029, 0x202F, 0x205F, 0x3000]"

definition digits :: string where
  "digits = ''0123456789''"

definition token_chars :: string where
  "token_chars = ''ABCDEFGHIJKLMNOPQRSTUVWXYZabcdefghijklmnopqrstuvwxyz0123456789_-''"

definition newline :: nat where
  "newline = 10"

definition starts_with :: "'a list \<Rightarrow> 'a list \<Rightarrow> bool" where
  "starts_with p s = (take (length p) s = p)"

definition replace_char :: "'a \<Rightarrow> 'a \<Rightarrow> 'a list \<Rightarrow> 'a list" where
  "replace_char a b s = map (\<lambda>c. if c = a then b else c) s"

text \<open>\<open>s.split(sep)\<close> for a one-character separator.\<close>

fun split_on :: "'a \<Rightarrow> 'a list \<Rightarrow> 'a list list" where
  "split_on sep [] = [[]]"
| "split_on sep (c # cs) =
     (if c = sep then [] # split_on sep cs
      else (case split_on sep cs of [] \<Rightarrow> [[c]] | h # t \<Rightarrow> (c # h) # t))"

text \<open>\<open>xs[i]\<close> for \<open>i \<ge> 0\<close>: \<open>None\<close> stands for IndexError.\<close>

definition index :: "'a list \<Rightarrow> nat \<Rightarrow> 'a option" where
  "index xs i = (if i < length xs then Some (xs ! i) else None)"

subsection \<open>The fragment of regular expressions the source uses\<close>

text \<open>
  A pattern is a sequence of items; \<open>re.match\<close> tries it at position 0, where the
  leading \<open>^\<close> of the source pattern holds, and does not require the whole string to be
  consumed. \<open>$\<close> holds at the end of the string and just before a newline that ends it.
  On a \<open>str\<close> pattern \<open>\d\<close> matches every Unicode decimal digit; the class
  \<open>[A-Za-z0-9_-]\<close> is ASCII.
\<close>

datatype cls = Digit | TokenChar

fun cls_mem :: "cls \<Rightarrow> nat \<Rightarrow> bool" where
  "cls_mem Digit c = is_decimal c"
| "cls_mem TokenChar c = (c \<in> set (cps token_chars))"

datatype item = Lit nat | Plus cls | Rep nat cls | Dollar

fun re_match :: "item list \<Rightarrow> pystr \<Rightarrow> bool" where
  "re_match [] s = True"
| "re_match (Dollar # ps) s = ((s = [] \<or> s = [newline]) \<and> re_match ps s)"
| "re_match (Lit a # ps) [] = False"
| "re_match (Lit a # ps) (x # xs) = (x = a \<and> re_match ps xs)"
| "re_match (Plus c # ps) [] = False"
| "re_match (Plus c # ps) (x # xs) =
     (cls_mem c x \<and> (re_match (Plus c # ps) xs \<or> re_match ps xs))"
| "re_match (Rep 0 c # ps) s = re_match ps s"
| "re_match (Rep (Suc n) c # ps) [] = False"
| "re_match (Rep (Suc n) c # ps) (x # xs) = (cls_mem c x \<and> re_match (Rep n c # ps) xs)"

text \<open>\<open>r'^\d+:[A-Za-z0-9_-]{35}$'\<close>; 58 is the colon.\<close>

definition token_pattern :: "item list" where
  "token_pattern = [Plus Digit, Lit 58, Rep 35 TokenChar, Dollar]"

text \<open>\<open>utils/helpers.py\<close>: \<open>bool(re.match(token_pattern, token))\<close>.\<close>

definition is_valid_bot_token :: "pystr \<Rightarrow> bool" where
  "is_valid_bot_token token = re_match token_pattern token"

text \<open>The language of the pattern, written out.\<close>

definition token_format :: "pystr \<Rightarrow> bool" where
  "token_format s = (\<exists>ds body. ds \<noteq> [] \<and> (\<forall>c\<in>set ds. is_decimal c) \<and>
      length body = 35 \<and> (\<forall>c\<in>set body. c \<in> set (cps token_chars)) \<and>
      (s = ds @ 58 # body \<or> s = ds @ 58 # body @ [newline]))"

subsection \<open>\<open>float(str)\<close> and \<open>int(str)\<close>\<close>

text \<open>
  Both builtins first bring the string to ASCII: a code point below 127 stays, whitespace
  from 128 on becomes a space, a decimal digit becomes its ASCII digit, and anything else
  becomes a question mark, on which the parse fails.
\<close>

definition to_ascii :: "nat \<Rightarrow> char" where
  "to_ascii cp =
     (if cp < 127 then char_of cp
      else if cp \<in> set unicode_spaces then CHR '' ''
      else case decimal_value cp of Some d \<Rightarrow> digits ! d | None \<Rightarrow> CHR ''?'')"

definition space_chars :: string where
  "space_chars = [CHR 0x09, CHR 0x0A, CHR 0x0B, CHR 0x0C, CHR 0x0D, CHR 0x20]"

definition is_space :: "char \<Rightarrow> bool" where
  "is_space c = (c \<in> set space_chars)"

definition is_digit :: "char \<Rightarrow> bool" where
  "is_digit c = (c \<in> set digits)"

definition strip :: "string \<Rightarrow> string" where
  "strip s = rev (dropWhile is_space (rev (dropWhile is_space s)))"

text \<open>
  An underscore is allowed only between two digits; \<open>prev\<close> is the previous character
  (NUL at the start).
\<close>

fun underscores_ok :: "char \<Rightarrow> string \<Rightarrow> bool" where
  "underscores_ok prev [] = (prev \<noteq> CHR ''_'')"
| "underscores_ok prev (c # cs) =
     (if c = CHR ''_'' then is_digit prev \<and> underscores_ok c cs
      else if prev = CHR ''_'' \<and> \<not> is_digit c then False
      else underscores_ok c cs)"

definition digit_val :: "char \<Rightarrow> nat" where
  "digit_val c = length (takeWhile (\<lambda>d. d \<noteq> c) digits)"

text \<open>The number a digit string denotes, most significant digit first.\<close>

fun digits_val :: "nat \<Rightarrow> string \<Rightarrow> nat" where
  "digits_val acc [] = acc"
| "digits_val acc (c # cs) = digits_val (10 * acc + digit_val c) cs"

definition take_sign :: "string \<Rightarrow> bool \<times> string" where
  "take_sign s = (case s of [] \<Rightarrow> (False, [])
     | c # cs \<Rightarrow> if c = CHR ''-'' then (True, cs)
                else if c = CHR ''+'' then (False, cs) else (False, c # cs))"

text \<open>Case-insensitive comparison with a keyword given as (lower, upper) pairs.\<close>

fun ci_eq :: "(char \<times> char) list \<Rightarrow> string \<Rightarrow> bool" where
  "ci_eq [] [] = True"
| "ci_eq ((l, u) # ks) (c # cs) = ((c = l \<or> c = u) \<and> ci_eq ks cs)"
| "ci_eq _ _ = False"

definition kw_inf :: "(char \<times> char) list" where
  "kw_inf = zip ''inf'' ''INF''"

definition kw_infinity :: "(char \<times> char) list" where
  "kw_infinity = zip ''infinity'' ''INFINITY''"

definition kw_nan :: "(char \<times> char) list" where
  "kw_nan = zip ''nan'' ''NAN''"

text \<open>The exponent part: nothing, or \<open>e\<close>/\<open>E\<close>, an optional sign and at least one digit.\<close>

definition parse_exponent :: "string \<Rightarrow> int option" where
  "parse_exponent s = (case s of [] \<Rightarrow> Some 0
     | c # cs \<Rightarrow>
        if c = CHR ''e'' \<or> c = CHR ''E'' then
          (let (neg, ds) = take_sign cs in
           if ds \<noteq> [] \<and> list_all is_digit ds
           then Some (if neg then - int (digits_val 0 ds) else int (digits_val 0 ds))
           else None)
        else None)"

definition scale10 :: "rat \<Rightarrow> int \<Rightarrow> rat" where
  "scale10 q e = (if 0 \<le> e then q * 10 ^ nat e else q / 10 ^ nat (- e))"

text \<open>
  \<open>[digits] [. [digits]] [exponent]\<close> with at least one digit before the exponent, on a
  string without sign and underscores: the exact value the text denotes.
\<close>

definition parse_number :: "string \<Rightarrow> rat option" where
  "parse_number s =
     (let ip = takeWhile is_digit s; r1 = dropWhile is_digit s;
          (fp, r2) = (case r1 of [] \<Rightarrow> ([], [])
             | c # cs \<Rightarrow> if c = CHR ''.'' then (takeWhile is_digit cs, dropWhile is_digit cs)
                         else ([], c # cs))
      in if ip = [] \<and> fp = [] then None
         else (case parse_exponent r2 of None \<Rightarrow> None
            | Some e \<Rightarrow> Some (scale10 (of_nat (digits_val 0 (ip @ fp))) (e - int (length fp)))))"

text \<open>
  The float of an ASCII string: the exact value rounded to the nearest double, or an
  infinity or NaN by name. \<open>None\<close> stands for ValueError.
\<close>

definition float_of_ascii :: "string \<Rightarrow> pyfloat option" where
  "float_of_ascii s =
     (let t = strip s in
      if \<not> underscores_ok (CHR 0x00) t then None
      else let (neg, body) = take_sign (filter (\<lambda>c. c \<noteq> CHR ''_'') t) in
        if ci_eq kw_inf body \<or> ci_eq kw_infinity body
          then Some (if neg then NegInf else PosInf)
        else if ci_eq kw_nan body then Some NaN
        else (case parse_number body of None \<Rightarrow> None
           | Some q \<Rightarrow> Some (round_double (if neg then - q else q))))"

definition py_float :: "pystr \<Rightarrow> pyfloat option" where
  "py_float s = float_of_ascii (map to_ascii s)"

text \<open>\<open>int(str)\<close> in base 10; \<open>None\<close> stands for ValueError.\<close>

definition int_of_ascii :: "string \<Rightarrow> int option" where
  "int_of_ascii s =
     (let t = strip s in
      if \<not> underscores_ok (CHR 0x00) t then None
      else let (neg, ds) = take_sign (filter (\<lambda>c. c \<noteq> CHR ''_'') t) in
        if ds \<noteq> [] \<and> list_all is_digit ds
        then Some (if neg then - int (digits_val 0 ds) else int (digits_val 0 ds))
        else None)"

definition py_int :: "pystr \<Rightarrow> int option" where
  "py_int s = int_of_ascii (map to_ascii s)"

text \<open>\<open>str(n)\<close> for a natural number.\<close>

fun str_nat :: "nat \<Rightarrow> string" where
  "str_nat n = (if n < 10 then [digits ! n] else str_nat (n div 10) @ [digits ! (n mod 10)])"

declare str_nat.simps [simp del]

definition str_int :: "int \<Rightarrow> string" where
  "str_int i = (if i < 0 then CHR ''-'' # str_nat (nat (- i)) else str_nat (nat i))"

text \<open>\<open>int(x)\<close> for a float \<open>x\<close> truncates toward zero.\<close>

definition py_trunc :: "rat \<Rightarrow> int" where
  "py_trunc x = (if 0 \<le> x then \<lfloor>x\<rfloor> else \<lceil>x\<rceil>)"

section \<open>Sessions, the transport and the handlers\<close>

text \<open>
  \<open>context.user_data\<close> is a dictionary; the keys the handlers use are the fields of
  \<open>user_data\<close>, an absent key being \<open>None\<close>. A plan is a dictionary with the keys
  \<open>id\<close>, \<open>nome\<close>, \<open>preco\<close> and \<open>duracao\<close>. The tags of \<open>waiting_for\<close> and the
  callback data of buttons are constants of the program and are kept as HOL strings;
  the text of a message is a \<open>pystr\<close>.
\<close>

record plan =
  plan_id :: "int option"
  nome :: "pystr option"
  preco :: "pyfloat option"
  duracao :: "int option"

definition empty_plan :: plan where
  "empty_plan = \<lparr>plan_id = None, nome = None, preco = None, duracao = None\<rparr>"

record user_data =
  waiting_for :: "string option"
  new_plan :: "plan option"
  planos :: "plan list option"
  welcome_text :: "string option"
  bot_username :: "string option"
  bot_id :: "int option"

record code_info =
  ci_user_id :: int
  ci_bot_id :: int
  expira :: rat

record payment =
  pg_user_id :: int
  pg_plano_id :: int
  valor :: pyfloat
  status :: string
  created_at :: rat

text \<open>
  \<open>context.bot_data\<close> is a plain \<open>dict\<close> shared by all users; its two keys hold
  dictionaries themselves.
\<close>

record bot_data =
  codigos_validacao :: "(pystr \<rightharpoonup> code_info) option"
  pagamentos :: "(string \<rightharpoonup> payment) option"

text \<open>
  What a handler sends is recorded in an outbox. A screen names the text template of the
  source (the Portuguese wording and the emoji are not reproduced); a button carries its
  label and its callback data or URL.
\<close>

datatype screen =
    TokenInvalid | BotStarting | BotStarted string
  | MainMenu | CreateBotInstructions | ConfigMessages
  | PlansEmpty | PlansList "plan list"
  | AddPlanAskName | AddPlanAskPrice | AddPlanAskDuration | PriceInvalid
  | ConfigChannel | CodeGenerated pystr
  | ChannelLinked "string option" | ChannelLinkedHere
  | PlanInvalid | PaymentProcessing plan | PaymentGenerated plan string
  | PaymentError | PaymentNotFound | PaymentApproved

datatype button = Callback string string | Url string string

datatype effect =
    Answer
  | EditMessage screen "button list list"
  | Reply screen "button list list"
  | EditReply screen "button list list"
  | SendMessage int screen

record world =
  user_data :: user_data
  bot_data :: bot_data
  outbox :: "effect list"
  store :: db

definition emit :: "effect \<Rightarrow> world \<Rightarrow> world" where
  "emit e w = w\<lparr>outbox := outbox w @ [e]\<rparr>"

definition set_waiting :: "string option \<Rightarrow> world \<Rightarrow> world" where
  "set_waiting t w = w\<lparr>user_data := (user_data w)\<lparr>waiting_for := t\<rparr>\<rparr>"

datatype py_error = KeyError | NameError | AttributeError

datatype outcome = Returned | Raised py_error

text \<open>
  \<open>hasattr(d, name)\<close> and \<open>getattr(d, name, default)\<close> on a \<open>dict\<close> look at the
  attributes of the object, not at its keys: these are the names of \<open>dir({})\<close>.
\<close>

definition dict_attrs :: "string list" where
  "dict_attrs = [''__class__'', ''__class_getitem__'', ''__contains__'', ''__delattr__'',
     ''__delitem__'', ''__dir__'', ''__doc__'', ''__eq__'', ''__format__'', ''__ge__'',
     ''__getattribute__'', ''__getitem__'', ''__getstate__'', ''__gt__'', ''__hash__'',
     ''__init__'', ''__init_subclass__'', ''__ior__'', ''__iter__'', ''__le__'', ''__len__'',
     ''__lt__'', ''__ne__'', ''__new__'', ''__or__'', ''__reduce__'', ''__reduce_ex__'',
     ''__repr__'', ''__reversed__'', ''__ror__'', ''__setattr__'', ''__setitem__'',
     ''__sizeof__'', ''__str__'', ''__subclasshook__'', ''clear'', ''copy'', ''fromkeys'',
     ''get'', ''items'', ''keys'', ''pop'', ''popitem'', ''setdefault'', ''update'',
     ''values'']"

definition dict_hasattr :: "string \<Rightarrow> bool" where
  "dict_hasattr name = (name \<in> set dict_attrs)"

text \<open>
  The names bound at module level in \<open>handlers/bot_handler.py\<close>: its imports, its logger
  and its functions. The module does not import \<open>time\<close>, and \<open>time\<close> is not a builtin.
\<close>

definition bot_handler_names :: "string list" where
  "bot_handler_names = [''os'', ''logging'', ''re'', ''json'', ''Update'',
     ''InlineKeyboardMarkup'', ''InlineKeyboardButton'', ''CallbackContext'',
     ''get_mysql_connection'', ''get_redis_connection'', ''logger'',
     ''verificar_token_bot'', ''iniciar_bot_usuario'', ''configurar_mensagens'',
     ''configurar_midia'', ''configurar_texto'', ''configurar_planos'', ''adicionar_plano'',
     ''processar_nome_plano'', ''processar_preco_plano'', ''processar_duracao_plano'',
     ''configurar_canal'', ''gerar_codigo_canal'']"

definition bound_in_bot_handler :: "string \<Rightarrow> bool" where
  "bound_in_bot_handler name = (name \<in> set bot_handler_names)"

subsection \<open>handlers/menu\_handler.py\<close>

definition menu_callback :: "world \<Rightarrow> world" where
  "menu_callback w = emit (EditMessage MainMenu
      [[Callback ''Criar seu Bot'' ''criar_bot''], [Callback ''Meu Saldo'' ''meu_saldo''],
       [Callback ''Convide e Ganhe'' ''convite''], [Callback ''Seja Admin VIP'' ''admin_vip''],
       [Callback ''Como Funciona'' ''como_funciona'']]) (emit Answer w)"

definition criar_bot_callback :: "world \<Rightarrow> world" where
  "criar_bot_callback w = set_waiting (Some ''bot_token'')
     (emit (EditMessage CreateBotInstructions [[Callback ''Voltar'' ''menu_principal'']])
        (emit Answer w))"

subsection \<open>handlers/bot\_handler.py\<close>

text \<open>
  \<open>verificar_token_bot\<close>: the guard, then \<open>user_data.pop('waiting_for', None)\<close>, then the
  format check. Saving the bot is a comment in the source (a simulation): the handler
  does not reach the store. The transport is taken not to raise.
\<close>

definition verificar_token_bot :: "pystr \<Rightarrow> world \<Rightarrow> world" where
  "verificar_token_bot text w =
     (if \<not> (waiting_for (user_data w) = Some ''bot_token'') then w
      else let w1 = set_waiting None w in
        if \<not> re_match token_pattern text then emit (Reply TokenInvalid []) w1
        else emit (EditReply (BotStarted ''SeuBot'')
               [[Url ''Iniciar @SeuBot'' ''https://t.me/SeuBot''],
                [Callback ''Configurar bot'' ''config_bot''],
                [Callback ''Voltar ao menu'' ''menu_principal'']])
              (emit (Reply BotStarting []) w1))"

definition configurar_mensagens :: "world \<Rightarrow> world" where
  "configurar_mensagens w = emit (EditMessage ConfigMessages
      [[Callback ''Midia'' ''config_midia''], [Callback ''Texto'' ''config_texto''],
       [Callback ''Criar Planos'' ''config_planos''],
       [Callback ''Visualizacao completa'' ''visualizacao_completa''],
       [Callback ''Voltar'' ''menu_bot'']]) (emit Answer w)"

text \<open>A plan can be rendered when its name, price and duration are present.\<close>

definition renderable :: "plan \<Rightarrow> bool" where
  "renderable p = (nome p \<noteq> None \<and> preco p \<noteq> None \<and> duracao p \<noteq> None)"

definition plans_keyboard :: "button list list" where
  "plans_keyboard = [[Callback ''Adicionar Plano'' ''adicionar_plano''],
                     [Callback ''Voltar'' ''config_mensagens'']]"

text \<open>
  \<open>configurar_planos\<close> reads \<open>user_data.get('planos', [])\<close> and renders every plan; a plan
  without one of its three keys raises KeyError after \<open>query.answer()\<close>.
\<close>

definition configurar_planos :: "world \<Rightarrow> outcome \<times> world" where
  "configurar_planos w =
     (let w1 = emit Answer w;
          ps = (case planos (user_data w1) of None \<Rightarrow> [] | Some ps \<Rightarrow> ps)
      in if ps = [] then (Returned, emit (EditMessage PlansEmpty plans_keyboard) w1)
         else if list_all renderable ps
           then (Returned, emit (EditMessage (PlansList ps) plans_keyboard) w1)
         else (Raised KeyError, w1))"

definition adicionar_plano :: "world \<Rightarrow> world" where
  "adicionar_plano w =
     (let w1 = emit (EditMessage AddPlanAskName [[Callback ''Cancelar'' ''config_planos'']])
                 (emit Answer w)
      in w1\<lparr>user_data := (user_data w1)\<lparr>waiting_for := Some ''plan_name'',
                                          new_plan := Some empty_plan\<rparr>\<rparr>)"

text \<open>
  \<open>processar_nome_plano\<close>: \<open>user_data['new_plan']['nome'] = text\<close> raises KeyError when
  there is no \<open>new_plan\<close>.
\<close>

definition processar_nome_plano :: "pystr \<Rightarrow> world \<Rightarrow> outcome \<times> world" where
  "processar_nome_plano text w =
     (if waiting_for (user_data w) \<noteq> Some ''plan_name'' then (Returned, w)
      else case new_plan (user_data w) of
          None \<Rightarrow> (Raised KeyError, w)
        | Some p \<Rightarrow>
            (let w1 = w\<lparr>user_data := (user_data w)\<lparr>new_plan := Some (p\<lparr>nome := Some text\<rparr>)\<rparr>\<rparr>
             in (Returned, set_waiting (Some ''plan_price'') (emit (Reply AddPlanAskPrice []) w1))))"

definition duration_keyboard :: "button list list" where
  "duration_keyboard =
     [[Callback ''1 Dia'' ''plan_duration_1'', Callback ''7 Dias'' ''plan_duration_7'',
       Callback ''15 Dias'' ''plan_duration_15''],
      [Callback ''30 Dias'' ''plan_duration_30'', Callback ''3 Meses'' ''plan_duration_90'',
       Callback ''6 Meses'' ''plan_duration_180''],
      [Callback ''1 Ano'' ''plan_duration_365'', Callback ''Vitalicio'' ''plan_duration_9999'']]"

text \<open>
  The parse and validate step of \<open>processar_preco_plano\<close>:
  \<open>float(text.replace(',', '.'))\<close>, then ValueError when the value is \<open>\<le> 0\<close>.
  \<open>None\<close> stands for ValueError; 44 is the comma and 46 the full stop.
\<close>

definition parse_price :: "pystr \<Rightarrow> pyfloat option" where
  "parse_price text =
     (case py_float (replace_char 44 46 text) of
        None \<Rightarrow> None
      | Some v \<Rightarrow> if le_zero v then None else Some v)"

text \<open>
  \<open>processar_preco_plano\<close>: only ValueError is caught; a missing \<open>new_plan\<close> raises
  KeyError out of the handler.
\<close>

definition processar_preco_plano :: "pystr \<Rightarrow> world \<Rightarrow> outcome \<times> world" where
  "processar_preco_plano text w =
     (if waiting_for (user_data w) \<noteq> Some ''plan_price'' then (Returned, w)
      else case parse_price text of
          None \<Rightarrow> (Returned, emit (Reply PriceInvalid []) w)
        | Some v \<Rightarrow>
           (case new_plan (user_data w) of
              None \<Rightarrow> (Raised KeyError, w)
            | Some p \<Rightarrow>
               (let w1 = w\<lparr>user_data := (user_data w)\<lparr>new_plan := Some (p\<lparr>preco := Some v\<rparr>)\<rparr>\<rparr>
                in (Returned, set_waiting (Some ''plan_duration'')
                      (emit (Reply AddPlanAskDuration duration_keyboard) w1)))))"

definition configurar_canal :: "world \<Rightarrow> world" where
  "configurar_canal w = emit (EditMessage ConfigChannel
      [[Callback ''Adicionar canal/grupo'' ''gerar_codigo_canal''],
       [Callback ''Voltar'' ''menu_bot'']]) (emit Answer w)"

text \<open>
  \<open>gerar_codigo_canal\<close>, for the user \<open>uid\<close>, the code \<open>codigo\<close> drawn by
  \<open>gerar_codigo_validacao()\<close> and the clock \<open>now\<close>. The guard is
  \<open>hasattr(context.bot_data, 'codigos_validacao')\<close>. The entry is built before it is
  stored, and building it evaluates \<open>time.time()\<close>: a NameError where \<open>time\<close> is not
  bound, which leaves the handler after the table was reset.
\<close>

definition gerar_codigo_canal :: "int \<Rightarrow> pystr \<Rightarrow> rat \<Rightarrow> world \<Rightarrow> outcome \<times> world" where
  "gerar_codigo_canal uid codigo now w =
     (let w1 = emit Answer w;
          w2 = (if \<not> dict_hasattr ''codigos_validacao''
                then w1\<lparr>bot_data := (bot_data w1)\<lparr>codigos_validacao := Some Map.empty\<rparr>\<rparr>
                else w1)
      in if \<not> bound_in_bot_handler ''time'' then (Raised NameError, w2)
         else case codigos_validacao (bot_data w2) of
             None \<Rightarrow> (Raised KeyError, w2)
           | Some tbl \<Rightarrow>
              (let info = \<lparr>ci_user_id = uid,
                           ci_bot_id = (case bot_id (user_data w2) of None \<Rightarrow> 0 | Some b \<Rightarrow> b),
                           expira = now + 3600\<rparr>;
                   w3 = w2\<lparr>bot_data := (bot_data w2)\<lparr>codigos_validacao :=
                                           Some (tbl(codigo \<mapsto> info))\<rparr>\<rparr>
               in (Returned, emit (EditMessage (CodeGenerated codigo)
                                     [[Callback ''Voltar'' ''config_canal'']]) w3)))"

subsection \<open>handlers/channel\_handler.py\<close>

record chat =
  chat_id :: int
  chat_title :: "string option"
  chat_type :: string

text \<open>
  \<open>validar_codigo_canal\<close>, for a message \<open>text\<close> in \<open>chat\<close> at time \<open>now\<close>. The first
  statement returns unless \<open>hasattr(context.bot_data, 'codigos_validacao')\<close>. Behind it,
  the loop over the items acts on the one key equal to the text. Saving the link is a
  comment in the source.
\<close>

definition validar_codigo_canal :: "pystr \<Rightarrow> chat \<Rightarrow> rat \<Rightarrow> world \<Rightarrow> world" where
  "validar_codigo_canal text ch now w =
     (if \<not> dict_hasattr ''codigos_validacao'' then w
      else let tbl = (case codigos_validacao (bot_data w) of None \<Rightarrow> Map.empty | Some t \<Rightarrow> t)
        in case tbl text of
            None \<Rightarrow> w
          | Some info \<Rightarrow>
             (let w1 = w\<lparr>bot_data := (bot_data w)\<lparr>codigos_validacao :=
                                        Some (tbl(text := None))\<rparr>\<rparr>
              in if now > expira info then w1
                 else emit (Reply ChannelLinkedHere [])
                        (emit (SendMessage (ci_user_id info) (ChannelLinked (chat_title ch)))
                           w)\<lparr>bot_data := bot_data w1\<rparr>))"

subsection \<open>handlers/payment\_handler.py\<close>

definition demo_plan :: "int \<Rightarrow> plan" where
  "demo_plan i = \<lparr>plan_id = Some i, nome = Some (cps ''Plano Teste''),
                   preco = Some (round_double (199 / 10)), duracao = Some 30\<rparr>"

definition payment_keyboard :: "string \<Rightarrow> button list list" where
  "payment_keyboard tx =
     [[Callback ''Copiar Codigo PIX'' (''copy_pix_'' @ tx)],
      [Callback ''Verificar Pagamento'' (''check_payment_'' @ tx)],
      [Callback ''Cancelar'' ''menu_principal'']]"

text \<open>
  \<open>processar_pagamento\<close>, for callback data \<open>data\<close>, the user \<open>uid\<close> and the clock
  readings \<open>now\<close> (for the transaction id \<open>f"TX{int(time.time())}"\<close>) and \<open>created\<close>. The plan is the first of
  \<open>planos\<close> whose \<open>id\<close> (default 0) is the requested one, or the demonstration plan when
  there is none or it is an empty dictionary. The payment is stored after the guard
  \<open>hasattr(context.bot_data, 'pagamentos')\<close>.
\<close>

definition processar_pagamento ::
  "string \<Rightarrow> int \<Rightarrow> rat \<Rightarrow> rat \<Rightarrow> world \<Rightarrow> outcome \<times> world" where
  "processar_pagamento data uid now created w =
     (let w1 = emit Answer w in
      if \<not> starts_with ''pagar_'' data then (Returned, w1)
      else case (case index (split_on (CHR ''_'') data) 1 of None \<Rightarrow> None
                 | Some s \<Rightarrow> py_int (cps s)) of
          None \<Rightarrow> (Returned, emit (EditMessage PlanInvalid []) w1)
        | Some plano_id \<Rightarrow>
           (let ps = (case planos (user_data w1) of None \<Rightarrow> [] | Some ps \<Rightarrow> ps);
                found = find (\<lambda>p. (case plan_id p of None \<Rightarrow> 0 | Some i \<Rightarrow> i) = plano_id) ps;
                plano = (case found of None \<Rightarrow> demo_plan plano_id
                         | Some p \<Rightarrow> if p = empty_plan then demo_plan plano_id else p)
            in case (nome plano, preco plano, duracao plano) of
                (Some n, Some pr, Some du) \<Rightarrow>
                  (let w2 = emit (EditMessage (PaymentProcessing plano) []) w1;
                       transaction_id = ''TX'' @ str_int (py_trunc now);
                       w3 = emit (EditMessage (PaymentGenerated plano transaction_id)
                                    (payment_keyboard transaction_id)) w2;
                       w4 = (if \<not> dict_hasattr ''pagamentos''
                             then w3\<lparr>bot_data := (bot_data w3)\<lparr>pagamentos := Some Map.empty\<rparr>\<rparr>
                             else w3)
                   in case pagamentos (bot_data w4) of
                       None \<Rightarrow> (Returned, emit (EditMessage PaymentError []) w4)
                     | Some tbl \<Rightarrow>
                        (Returned, w4\<lparr>bot_data := (bot_data w4)\<lparr>pagamentos := Some (tbl(transaction_id \<mapsto>
                            \<lparr>pg_user_id = uid, pg_plano_id = plano_id, valor = pr,
                             status = ''pending'', created_at = created\<rparr>))\<rparr>\<rparr>))
              | _ \<Rightarrow> (Raised KeyError, w1)))"

text \<open>
  \<open>verificar_pagamento\<close>: the table is read with
  \<open>getattr(context.bot_data, 'pagamentos', {})\<close>, which yields the default, a fresh empty
  dictionary, for every name that is not an attribute of \<open>dict\<close> (an attribute would be
  a method, without \<open>get\<close>: AttributeError). A record found in that dictionary would be
  marked approved there; \<open>bot_data\<close> is not written.
\<close>

definition verificar_pagamento :: "string \<Rightarrow> world \<Rightarrow> outcome \<times> world" where
  "verificar_pagamento data w =
     (let w1 = emit Answer w in
      if \<not> starts_with ''check_payment_'' data then (Returned, w1)
      else case index (split_on (CHR ''_'') data) 2 of
          None \<Rightarrow> (Returned, w1)
        | Some transaction_id \<Rightarrow>
           if dict_hasattr ''pagamentos'' then (Raised AttributeError, w1)
           else let tbl = (Map.empty :: string \<rightharpoonup> payment) in
             case tbl transaction_id of
               None \<Rightarrow> (Returned, emit (EditMessage PaymentNotFound []) w1)
             | Some pg \<Rightarrow> (Returned, emit (EditMessage PaymentApproved
                                [[Callback ''Voltar ao Menu'' ''menu_principal'']]) w1))"

subsection \<open>Back and cancel buttons\<close>

text \<open>
  The callback data carried by the buttons labelled Voltar or Cancelar in the modelled
  screens, and the handler \<open>main.py\<close> registers for each; \<open>menu_bot\<close> has no handler. An
  exception raised by a handler is caught by the dispatcher, the state stays as the
  handler left it.
\<close>

definition back_targets :: "string list" where
  "back_targets = [''menu_principal'', ''menu_bot'', ''config_mensagens'', ''config_planos'',
                   ''config_canal'']"

definition back_action :: "string \<Rightarrow> world \<Rightarrow> world" where
  "back_action data w =
     (if data = ''menu_principal'' then menu_callback w
      else if data = ''config_mensagens'' then configurar_mensagens w
      else if data = ''config_planos'' then snd (configurar_planos w)
      else if data = ''config_canal'' then configurar_canal w
      else w)"

subsection \<open>Concrete sessions\<close>

definition idle_world :: world where
  "idle_world = \<lparr>user_data = \<lparr>waiting_for = None, new_plan = None, planos = None,
       welcome_text = None, bot_username = None, bot_id = None\<rparr>,
     bot_data = \<lparr>codigos_validacao = None, pagamentos = None\<rparr>,
     outbox = [], store = empty_db\<rparr>"

definition some_chat :: chat where
  "some_chat = \<lparr>chat_id = - 1001, chat_title = Some ''VIP'', chat_type = ''supergroup''\<rparr>"

text \<open>A world whose code table holds one code, issued to user 42 and valid until 5000.\<close>

definition coded_world :: world where
  "coded_world = idle_world\<lparr>bot_data := \<lparr>codigos_validacao =
       Some [cps ''AB12CD34'' \<mapsto> \<lparr>ci_user_id = 42, ci_bot_id = 0, expira = 5000\<rparr>],
     pagamentos = None\<rparr>\<rparr>"

definition good_token :: pystr where
  "good_token = cps ''123456789:ABCDefGhIJKlmNoPQRsTUVwxyZ012345678''"

text \<open>Three Arabic-Indic digits, a colon and 35 letters.\<close>

definition arabic_token :: pystr where
  "arabic_token = [0x661, 0x662, 0x663] @ cps '':'' @ replicate 35 65"

text \<open>The world after user 42 asked to pay plan 1 at time 1000.\<close>

definition paid_world :: world where
  "paid_world = snd (processar_pagamento ''pagar_1'' 42 1000 1001 idle_world)"

text \<open>The session after the add-plan action and the plan name Mensal.\<close>

definition pricing_world :: world where
  "pricing_world = snd (processar_nome_plano (cps ''Mensal'') (adicionar_plano idle_world))"

section \<open>Rounding at particular values\<close>

lemma round_double_pos:
  assumes "0 < a" and "floor_log2 a = k" and "e = max (k - 52) (- 1074)"
    and "round_half_even (a / pow2 e) = m" and "r = of_int m * pow2 e" and "r < pow2 1024"
  shows "round_double a = Finite r"
  using assms by (simp add: round_double_def Let_def)

lemma round_half_even_down:
  assumes "of_int f \<le> x" and "x < of_int f + 1 / 2"
  shows "round_half_even x = f"
proof -
  have "\<lfloor>x\<rfloor> = f" using assms by (intro floor_unique) simp_all
  then show ?thesis using assms by (simp add: round_half_even_def Let_def)
qed

lemma round_half_even_up:
  assumes "of_int f - 1 / 2 < x" and "x \<le> of_int f"
  shows "round_half_even x = f"
proof (cases "x = of_int f")
  case True
  then show ?thesis by (simp add: round_half_even_def Let_def)
next
  case False
  then have "\<lfloor>x\<rfloor> = f - 1" using assms by (intro floor_unique) simp_all
  then show ?thesis using assms False by (simp add: round_half_even_def Let_def)
qed

lemma round_half_even_tie:
  assumes "x = of_int f + 1 / 2"
  shows "round_half_even x = (if even f then f else f + 1)"
proof -
  have "\<lfloor>x\<rfloor> = f" using assms by (intro floor_unique) simp_all
  then show ?thesis using assms by (simp add: round_half_even_def Let_def)
qed

lemma il53: "ilog2 9999999999999999 = 53"
  by (simp add: ilog2.simps)

lemma round_1e16_minus_1: "round_double (10 ^ 16 - 1) = Finite (10 ^ 16)"
proof (rule round_double_pos [where k = 53 and e = 1 and m = "5 * 10 ^ 15"])
  show "(0::rat) < 10 ^ 16 - 1" by simp
  show "floor_log2 (10 ^ 16 - 1) = 53" by (simp add: floor_log2_def il53)
  show "(1::int) = max (53 - 52) (- 1074)" by simp
  show "round_half_even ((10 ^ 16 - 1) / pow2 1) = 5 * 10 ^ 15"
    using round_half_even_tie [of "(10 ^ 16 - 1) / pow2 1" 4999999999999999]
    by (simp add: pow2_def)
  show "(10::rat) ^ 16 = of_int (5 * 10 ^ 15) * pow2 1" by (simp add: pow2_def)
  show "(10::rat) ^ 16 < pow2 1024" by (simp add: pow2_def)
qed

lemma il19: "ilog2 19 = 4"
  by (simp add: ilog2.simps)

lemma round_19_90: "round_double (199 / 10) = Finite (2800676018271027 / 140737488355328)"
proof (rule round_double_pos [where k = 4 and e = "- 48" and m = 5601352036542054])
  show "(0::rat) < 199 / 10" by simp
  have "\<lfloor>(199::rat) / 10\<rfloor> = 19" by (intro floor_unique) simp_all
  then show "floor_log2 (199 / 10) = 4" by (simp add: floor_log2_def il19)
  show "(- 48::int) = max (4 - 52) (- 1074)" by simp
  show "round_half_even (199 / 10 / pow2 (- 48)) = 5601352036542054"
    by (rule round_half_even_down) (simp_all add: pow2_def)
  show "(2800676018271027::rat) / 140737488355328 = of_int 5601352036542054 * pow2 (- 48)"
    by (simp add: pow2_def)
  show "(2800676018271027::rat) / 140737488355328 < pow2 1024" by (simp add: pow2_def)
qed

lemma il15: "ilog2 15 = 3" "ilog2 10 = 3" "ilog2 6 = 2"
  by (simp_all add: ilog2.simps)

lemma rd_small: "round_double 15 = Finite 15" "round_double 10 = Finite 10"
  "round_double 6 = Finite 6"
proof -
  show "round_double 15 = Finite 15"
    by (rule round_double_pos [where k = 3 and e = "- 49" and m = "15 * 2 ^ 49"])
       (simp_all add: floor_log2_def il15 pow2_def round_half_even_down)
  show "round_double 10 = Finite 10"
    by (rule round_double_pos [where k = 3 and e = "- 49" and m = "10 * 2 ^ 49"])
       (simp_all add: floor_log2_def il15 pow2_def round_half_even_down)
  show "round_double 6 = Finite 6"
    by (rule round_double_pos [where k = 2 and e = "- 50" and m = "6 * 2 ^ 50"])
       (simp_all add: floor_log2_def il15 pow2_def round_half_even_down)
qed


section \<open>Properties of the store and of \<open>User\<close>\<close>

lemma accepts_Suc: "accepts (Suc n) c \<Longrightarrow> \<not> raises_next c \<and> accepts n (tick c)"
  by (cases "faults c") (auto simp: accepts_def raises_next_def tick_def)

lemma raises_next_upd [simp]:
  "raises_next (c\<lparr>working := d\<rparr>) = raises_next c"
  "raises_next (c\<lparr>next_user_id := i\<rparr>) = raises_next c"
  "raises_next (c\<lparr>next_tx_id := i\<rparr>) = raises_next c"
  by (simp_all add: raises_next_def)

lemma accepts_upd [simp]:
  "accepts n (c\<lparr>working := d\<rparr>) = accepts n c"
  "accepts n (c\<lparr>next_user_id := i\<rparr>) = accepts n c"
  "accepts n (c\<lparr>next_tx_id := i\<rparr>) = accepts n c"
  by (simp_all add: accepts_def)

lemma tick_fields [simp]:
  "working (tick c) = working c" "committed (tick c) = committed c"
  "next_tx_id (tick c) = next_tx_id c" "next_user_id (tick c) = next_user_id c"
  "faults (tick c) = drop 1 (faults c)"
  by (simp_all add: tick_def)

lemma save_steps:
  assumes "accepts 3 c"
  shows "\<not> raises_next c" and "\<not> raises_next (tick c)" and "\<not> raises_next (tick (tick c))"
proof -
  have a3: "accepts (Suc (Suc (Suc 0))) c" using assms by (simp add: eval_nat_numeral)
  from accepts_Suc[OF a3] show n1: "\<not> raises_next c" by simp
  from accepts_Suc[OF a3] have a2: "accepts (Suc (Suc 0)) (tick c)" by simp
  from accepts_Suc[OF a2] show n2: "\<not> raises_next (tick c)" by simp
  from accepts_Suc[OF a2] have a1: "accepts (Suc 0) (tick (tick c))" by simp
  from accepts_Suc[OF a1] show "\<not> raises_next (tick (tick c))" by simp
qed

lemmas save_defs = save_def Let_def res_of_def user_of_def conn_of_def commit_def
  insert_user_def update_user_def

lemma save_accepted:
  assumes "accepts 3 c"
  shows "res_of (save u c) = True"
    and "balance (user_of (save u c)) = balance u"
    and "telegram_id (user_of (save u c)) = telegram_id u"
    and "committed (conn_of (save u c)) = working (conn_of (save u c))"
    and "transactions (working (conn_of (save u c))) = transactions (working c)"
    and "faults (conn_of (save u c)) = drop 3 (faults c)"
    and "next_tx_id (conn_of (save u c)) = next_tx_id c"
  using save_steps [OF assms]
  by (cases "user_id u"; simp add: save_defs eval_nat_numeral drop_Suc drop_tl)+

lemma save_updates_row:
  assumes "accepts 3 c" and "user_id u = Some i"
  shows "users (working (conn_of (save u c))) =
           map (\<lambda>r. if r_id r = i
                 then r\<lparr>r_username := username u, r_first_name := first_name u,
                        r_last_name := last_name u, r_is_admin := is_admin u,
                        r_is_vip := is_vip u, r_vip_until := vip_until u,
                        r_balance := balance u\<rparr>
                 else r) (users (working c))"
    and "user_id (user_of (save u c)) = Some i"
  using save_steps [OF assms(1)] assms(2) by (simp_all add: save_defs)

lemma save_inserts_row:
  assumes "accepts 3 c" and "user_id u = None"
  shows "users (working (conn_of (save u c))) = users (working c) @
           [\<lparr>r_id = next_user_id c, r_telegram_id = telegram_id u, r_username = username u,
             r_first_name = first_name u, r_last_name = last_name u, r_is_admin = is_admin u,
             r_is_vip = is_vip u, r_vip_until = vip_until u, r_balance = balance u\<rparr>]"
    and "user_id (user_of (save u c)) = Some (next_user_id c)"
  using save_steps [OF assms(1)] assms(2) by (simp_all add: save_defs)

lemma accepts_drop: "accepts (m + n) c \<Longrightarrow> accepts n (c\<lparr>faults := drop m (faults c)\<rparr>)"
  by (auto simp: accepts_def take_drop add.commute dest: in_set_dropD)

lemma accepts_mono: "accepts (m + n) c \<Longrightarrow> accepts m c"
  by (auto simp: accepts_def take_add)

lemma accepts_next:
  assumes "accepts (Suc m) c" and "faults c' = drop m (faults c)"
  shows "\<not> raises_next c'"
proof
  assume "raises_next c'"
  then obtain rest where d: "drop m (faults c) = True # rest"
    using assms(2) by (auto simp: raises_next_def split: list.splits)
  then have "faults c ! m = True"
    by (simp add: nth_via_drop)
  moreover from d have "m < length (faults c)"
    by (cases "m < length (faults c)") simp_all
  ultimately have "faults c ! m = True" and "m < length (faults c)" by simp_all
  then have "True \<in> set (take (Suc m) (faults c))"
    by (auto simp: in_set_conv_nth intro!: exI[of _ m])
  with assms(1) show False by (simp add: accepts_def)
qed

lemma add_balance_unfold:
  fixes u :: user and c :: conn and a :: pyfloat and ty :: string
    and r d :: "string option"
  assumes "accepts 6 c"
  defines "u1 \<equiv> u\<lparr>balance := fadd (balance u) a\<rparr>"
    and "c3 \<equiv> (tick (tick c))\<lparr>working := insert_tx
       \<lparr>t_id = next_tx_id c, t_user_id = telegram_id u, t_amount = a, t_type = ty,
        t_status = ''completed'', t_reference_id = r, t_description = d\<rparr> (working c),
       next_tx_id := Suc (next_tx_id c)\<rparr>"
  shows "add_balance u c a ty r d =
      (RId (next_tx_id c), user_of (save u1 c3), commit (tick (conn_of (save u1 c3))))"
    and "accepts 3 c3"
proof -
  have a6: "accepts (Suc (Suc (4::nat))) c" using assms(1) by (simp add: eval_nat_numeral)
  from accepts_Suc[OF a6] have n1: "\<not> raises_next c" and a5: "accepts (Suc 4) (tick c)" by auto
  from accepts_Suc[OF a5] have n2: "\<not> raises_next (tick c)" and a4: "accepts 4 (tick (tick c))" by auto
  have a4': "accepts (3 + 1) c3" using a4 by (simp add: c3_def)
  show a3: "accepts 3 c3" by (rule accepts_mono[OF a4'])
  have a4'': "accepts (Suc 3) c3" using a4' by simp
  have n3: "\<not> raises_next (conn_of (save u1 c3))"
    by (rule accepts_next[OF a4'' save_accepted(6)[OF a3]])
  show "add_balance u c a ty r d =
      (RId (next_tx_id c), user_of (save u1 c3), commit (tick (conn_of (save u1 c3))))"
    using n1 n2 n3
    by (simp add: add_balance_def Let_def case_prod_beta u1_def c3_def user_of_def conn_of_def)
qed

lemma add_balance_accepted:
  assumes "accepts 6 c"
  shows "res_of (add_balance u c a ty r d) = RId (next_tx_id c)"
    and "balance (user_of (add_balance u c a ty r d)) = fadd (balance u) a"
    and "transactions (working (conn_of (add_balance u c a ty r d))) =
           transactions (working c) @
             [\<lparr>t_id = next_tx_id c, t_user_id = telegram_id u, t_amount = a, t_type = ty,
               t_status = ''completed'', t_reference_id = r, t_description = d\<rparr>]"
    and "committed (conn_of (add_balance u c a ty r d)) = working (conn_of (add_balance u c a ty r d))"
proof -
  note unf = add_balance_unfold [OF assms, of u a ty r d]
  show "res_of (add_balance u c a ty r d) = RId (next_tx_id c)"
    by (simp add: unf(1) res_of_def)
  show "balance (user_of (add_balance u c a ty r d)) = fadd (balance u) a"
    using save_accepted(2)[OF unf(2)] by (simp add: unf(1) user_of_def)
  show "transactions (working (conn_of (add_balance u c a ty r d))) =
           transactions (working c) @
             [\<lparr>t_id = next_tx_id c, t_user_id = telegram_id u, t_amount = a, t_type = ty,
               t_status = ''completed'', t_reference_id = r, t_description = d\<rparr>]"
    using save_accepted(5)[OF unf(2)]
    by (simp add: unf(1) conn_of_def commit_def insert_tx_def)
  show "committed (conn_of (add_balance u c a ty r d)) = working (conn_of (add_balance u c a ty r d))"
    by (simp add: unf(1) conn_of_def commit_def)
qed

lemma add_balance_updates_row:
  assumes "accepts 6 c" and "user_id u = Some i"
  shows "users (working (conn_of (add_balance u c a ty r d))) =
           map (\<lambda>row. if r_id row = i
                 then row\<lparr>r_username := username u, r_first_name := first_name u,
                          r_last_name := last_name u, r_is_admin := is_admin u,
                          r_is_vip := is_vip u, r_vip_until := vip_until u,
                          r_balance := fadd (balance u) a\<rparr>
                 else row) (users (working c))"
proof -
  note unf = add_balance_unfold [OF assms(1), of u a ty r d]
  show ?thesis
    using save_updates_row(1) [OF unf(2), of "u\<lparr>balance := fadd (balance u) a\<rparr>" i] assms(2)
    by (simp add: unf(1) conn_of_def commit_def insert_tx_def)
qed

lemma add_balance_inserts_row:
  assumes "accepts 6 c" and "user_id u = None"
  shows "users (working (conn_of (add_balance u c a ty r d))) = users (working c) @
           [\<lparr>r_id = next_user_id c, r_telegram_id = telegram_id u, r_username = username u,
             r_first_name = first_name u, r_last_name = last_name u, r_is_admin = is_admin u,
             r_is_vip = is_vip u, r_vip_until = vip_until u,
             r_balance = fadd (balance u) a\<rparr>]"
proof -
  note unf = add_balance_unfold [OF assms(1), of u a ty r d]
  show ?thesis
    using save_inserts_row(1) [OF unf(2), of "u\<lparr>balance := fadd (balance u) a\<rparr>"] assms(2)
    by (simp add: unf(1) conn_of_def commit_def insert_tx_def)
qed

text \<open>
  Claim C1, as amended. \<open>remove_balance(amount)\<close> returns a falsy result and leaves the
  user (so the balance) and the connection as they were whenever \<open>balance < amount\<close>.
  Whenever that comparison is false, in particular whenever \<open>amount \<le> balance\<close>, and the
  server accepts the six calls the operation makes, the balance becomes the float sum
  \<open>balance + (-amount)\<close>, exactly one row is appended to the ledger, for this user and
  with amount \<open>-amount\<close>, the user's row in \<open>users\<close> gets the new balance (a user
  without id is inserted with it), and all of it is committed. The float sum is the exact
  difference whenever that difference is a double.
\<close>

theorem remove_balance_contract:
  "(flt (balance u) amount \<longrightarrow>
      falsy (res_of (remove_balance u c amount ty r d)) \<and>
      user_of (remove_balance u c amount ty r d) = u \<and>
      conn_of (remove_balance u c amount ty r d) = c) \<and>
   (\<not> flt (balance u) amount \<and> accepts 6 c \<longrightarrow>
      balance (user_of (remove_balance u c amount ty r d)) = fadd (balance u) (fneg amount) \<and>
      transactions (working (conn_of (remove_balance u c amount ty r d))) =
        transactions (working c) @
          [\<lparr>t_id = next_tx_id c, t_user_id = telegram_id u, t_amount = fneg amount, t_type = ty,
            t_status = ''completed'', t_reference_id = r, t_description = d\<rparr>] \<and>
      committed (conn_of (remove_balance u c amount ty r d)) =
        working (conn_of (remove_balance u c amount ty r d)) \<and>
      (\<forall>i. user_id u = Some i \<longrightarrow>
         users (working (conn_of (remove_balance u c amount ty r d))) =
           map (\<lambda>row. if r_id row = i
                 then row\<lparr>r_username := username u, r_first_name := first_name u,
                          r_last_name := last_name u, r_is_admin := is_admin u,
                          r_is_vip := is_vip u, r_vip_until := vip_until u,
                          r_balance := fadd (balance u) (fneg amount)\<rparr>
                 else row) (users (working c))) \<and>
      (user_id u = None \<longrightarrow>
         users (working (conn_of (remove_balance u c amount ty r d))) = users (working c) @
           [\<lparr>r_id = next_user_id c, r_telegram_id = telegram_id u, r_username = username u,
             r_first_name = first_name u, r_last_name = last_name u, r_is_admin = is_admin u,
             r_is_vip = is_vip u, r_vip_until = vip_until u,
             r_balance = fadd (balance u) (fneg amount)\<rparr>])) \<and>
   (\<forall>a b. balance u = Finite a \<and> amount = Finite b \<and> round_double (a - b) = Finite (a - b) \<longrightarrow>
      fadd (balance u) (fneg amount) = Finite (a - b))"
proof (intro conjI impI allI)
  assume "flt (balance u) amount"
  then have "remove_balance u c amount ty r d = (RFalse, u, c)"
    by (simp add: remove_balance_def)
  then show "falsy (res_of (remove_balance u c amount ty r d))"
    and "user_of (remove_balance u c amount ty r d) = u"
    and "conn_of (remove_balance u c amount ty r d) = c"
    by (simp_all add: res_of_def user_of_def conn_of_def)
next
  assume h: "\<not> flt (balance u) amount \<and> accepts 6 c"
  then have e: "remove_balance u c amount ty r d = add_balance u c (fneg amount) ty r d"
    by (simp add: remove_balance_def)
  from h have a: "accepts 6 c" by simp
  show "balance (user_of (remove_balance u c amount ty r d)) = fadd (balance u) (fneg amount)"
    using add_balance_accepted(2)[OF a] by (simp add: e)
  show "transactions (working (conn_of (remove_balance u c amount ty r d))) =
        transactions (working c) @
          [\<lparr>t_id = next_tx_id c, t_user_id = telegram_id u, t_amount = fneg amount, t_type = ty,
            t_status = ''completed'', t_reference_id = r, t_description = d\<rparr>]"
    using add_balance_accepted(3)[OF a] by (simp add: e)
  show "committed (conn_of (remove_balance u c amount ty r d)) =
        working (conn_of (remove_balance u c amount ty r d))"
    using add_balance_accepted(4)[OF a] by (simp add: e)
  show "users (working (conn_of (remove_balance u c amount ty r d))) =
           map (\<lambda>row. if r_id row = i
                 then row\<lparr>r_username := username u, r_first_name := first_name u,
                          r_last_name := last_name u, r_is_admin := is_admin u,
                          r_is_vip := is_vip u, r_vip_until := vip_until u,
                          r_balance := fadd (balance u) (fneg amount)\<rparr>
                 else row) (users (working c))"
    if "user_id u = Some i" for i
    using add_balance_updates_row [OF a that] by (simp add: e)
  show "users (working (conn_of (remove_balance u c amount ty r d))) = users (working c) @
           [\<lparr>r_id = next_user_id c, r_telegram_id = telegram_id u, r_username = username u,
             r_first_name = first_name u, r_last_name = last_name u, r_is_admin = is_admin u,
             r_is_vip = is_vip u, r_vip_until = vip_until u,
             r_balance = fadd (balance u) (fneg amount)\<rparr>]"
    if "user_id u = None"
    using add_balance_inserts_row [OF a that] by (simp add: e)
next
  fix a b
  assume "balance u = Finite a \<and> amount = Finite b \<and> round_double (a - b) = Finite (a - b)"
  then show "fadd (balance u) (fneg amount) = Finite (a - b)" by simp
qed

theorem remove_balance_contract_witness:
  "flt (balance alice) (Finite 15) \<and>
   falsy (res_of (remove_balance alice ok_conn (Finite 15) ''withdrawal'' None None)) \<and>
   user_of (remove_balance alice ok_conn (Finite 15) ''withdrawal'' None None) = alice \<and>
   \<not> flt (balance alice) (Finite 4) \<and> accepts 6 ok_conn \<and> user_id alice = Some 1 \<and>
   round_double (10 - 4) = Finite (10 - 4) \<and>
   balance (user_of (remove_balance alice ok_conn (Finite 4) ''withdrawal'' None None)) = Finite 6 \<and>
   map r_balance (users (working (conn_of
     (remove_balance alice ok_conn (Finite 4) ''withdrawal'' None None)))) = [Finite 6] \<and>
   map t_amount (transactions (working (conn_of
     (remove_balance alice ok_conn (Finite 4) ''withdrawal'' None None)))) = [Finite (- 4)]"
proof -
  have b: "balance alice = Finite 10" and i: "user_id alice = Some 1"
    by (simp_all add: alice_def)
  have a: "accepts 6 ok_conn" by (simp add: accepts_def ok_conn_def)
  have t: "transactions (working ok_conn) = []" "map r_id (users (working ok_conn)) = [1]"
    "length (users (working ok_conn)) = 1"
    by (simp_all add: ok_conn_def alice_db_def empty_db_def alice_row_def)
  have r6: "round_double (10 - 4) = Finite (10 - 4)" using rd_small(3) by simp
  note w1 = remove_balance_contract [where u = alice and amount = "Finite 15" and c = ok_conn
          and ty = "''withdrawal''" and r = None and d = None]
  note w2 = remove_balance_contract [where u = alice and amount = "Finite 4" and c = ok_conn
          and ty = "''withdrawal''" and r = None and d = None]
  have f: "fadd (balance alice) (fneg (Finite 4)) = Finite 6" using w2 b r6 by simp
  have u: "users (working ok_conn) = [alice_row]" "r_id alice_row = 1"
    by (simp_all add: ok_conn_def alice_db_def empty_db_def alice_row_def)
  show ?thesis
    using w1 w2 by (simp add: a b i t rd_small u)
qed

text \<open>
  The claim as written fails: with balance \<open>1e16\<close>, \<open>amount = 1.0 \<le> balance\<close> and every
  write accepted, the balance after the call is \<open>1e16\<close> again, in memory and in the
  stored row: it did not decrease by \<open>amount\<close>.
\<close>

theorem remove_balance_rounding_counterexample:
  "\<not> flt (balance rich) (Finite 1) \<and> accepts 6 rich_conn \<and>
   balance rich = Finite (10 ^ 16) \<and>
   balance (user_of (remove_balance rich rich_conn (Finite 1) ''withdrawal'' None None)) =
     Finite (10 ^ 16) \<and>
   map r_balance (users (working (conn_of
     (remove_balance rich rich_conn (Finite 1) ''withdrawal'' None None)))) = [Finite (10 ^ 16)] \<and>
   (10::rat) ^ 16 \<noteq> 10 ^ 16 - 1"
proof -
  have b: "balance rich = Finite (10 ^ 16)" and i: "user_id rich = Some 1"
    by (simp_all add: rich_def alice_def)
  have a: "accepts 6 rich_conn" by (simp add: accepts_def rich_conn_def ok_conn_def)
  have nf: "\<not> flt (balance rich) (Finite 1)" by (simp add: b)
  have f: "fadd (balance rich) (fneg (Finite 1)) = Finite (10 ^ 16)"
    using round_1e16_minus_1 by (simp add: b)
  have u: "users (working rich_conn) = [rich_row]" "r_id rich_row = 1"
    by (simp_all add: rich_conn_def ok_conn_def empty_db_def rich_row_def alice_row_def)
  have e: "remove_balance rich rich_conn (Finite 1) ''withdrawal'' None None =
      add_balance rich rich_conn (fneg (Finite 1)) ''withdrawal'' None None"
    using nf by (simp add: remove_balance_def)
  have "balance (user_of (remove_balance rich rich_conn (Finite 1) ''withdrawal'' None None)) =
      Finite (10 ^ 16)"
    using add_balance_accepted(2) [OF a, of rich "fneg (Finite 1)"] f by (simp only: e)
  moreover have "map r_balance (users (working (conn_of
     (remove_balance rich rich_conn (Finite 1) ''withdrawal'' None None)))) = [Finite (10 ^ 16)]"
    using add_balance_updates_row [OF a i, of "fneg (Finite 1)" "''withdrawal''" None None] f
    by (simp only: e) (simp add: u)
  ultimately show ?thesis using nf a b by simp
qed

text \<open>
  Claim C2, as amended. If the INSERT into \<open>transactions\<close> is rejected (the cursor was
  obtained, \<open>cursor.execute\<close> raises), \<open>add_balance\<close> returns \<open>False\<close> and the connection
  is rolled back to the last commit: neither a ledger row nor a balance update is stored.
  The in-memory user is not restored: its balance is the float sum of the old balance
  and \<open>amount\<close>, every other field as before.
\<close>

theorem add_balance_insert_rejected:
  "\<not> raises_next c \<and> raises_next (tick c) \<longrightarrow>
     res_of (add_balance u c amount ty r d) = RFalse \<and>
     user_of (add_balance u c amount ty r d) = u\<lparr>balance := fadd (balance u) amount\<rparr> \<and>
     working (conn_of (add_balance u c amount ty r d)) = committed c \<and>
     committed (conn_of (add_balance u c amount ty r d)) = committed c"
  by (simp add: add_balance_def Let_def res_of_def user_of_def conn_of_def rollback_def)

theorem add_balance_insert_rejected_witness:
  "\<not> raises_next failing_conn \<and> raises_next (tick failing_conn) \<and>
   res_of (add_balance alice failing_conn (Finite 5) ''deposit'' None None) = RFalse \<and>
   transactions (working (conn_of (add_balance alice failing_conn (Finite 5) ''deposit'' None None))) = []"
  using add_balance_insert_rejected [where u = alice and amount = "Finite 5" and c = failing_conn
          and ty = "''deposit''" and r = None and d = None]
  by (simp add: raises_next_def failing_conn_def tick_def alice_db_def empty_db_def)

text \<open>
  The claim as written fails: with balance 10 and a rejected INSERT of a deposit of 5, the
  call reports failure and the in-memory balance is 15.
\<close>

theorem add_balance_no_rollback_counterexample:
  "raises_next (tick failing_conn) \<and>
   res_of (add_balance alice failing_conn (Finite 5) ''deposit'' None None) = RFalse \<and>
   balance alice = Finite 10 \<and>
   balance (user_of (add_balance alice failing_conn (Finite 5) ''deposit'' None None)) = Finite 15"
  using rd_small(1)
  by (simp add: add_balance_def Let_def res_of_def user_of_def raises_next_def failing_conn_def
        tick_def alice_def)


section \<open>Properties of the handlers\<close>

lemma not_hasattr_codigos: "\<not> dict_hasattr ''codigos_validacao''"
  by (simp add: dict_hasattr_def dict_attrs_def)

lemma not_hasattr_pagamentos: "\<not> dict_hasattr ''pagamentos''"
  by (simp add: dict_hasattr_def dict_attrs_def)

lemma time_unbound: "\<not> bound_in_bot_handler ''time''"
  by (simp add: bound_in_bot_handler_def bot_handler_names_def)

lemma emit_fields [simp]:
  "user_data (emit e w) = user_data w" "bot_data (emit e w) = bot_data w"
  "store (emit e w) = store w" "outbox (emit e w) = outbox w @ [e]"
  by (simp_all add: emit_def)

lemma set_waiting_fields [simp]:
  "user_data (set_waiting t w) = (user_data w)\<lparr>waiting_for := t\<rparr>"
  "bot_data (set_waiting t w) = bot_data w"
  "store (set_waiting t w) = store w" "outbox (set_waiting t w) = outbox w"
  by (simp_all add: set_waiting_def)

text \<open>
  Claim C5. For each of the three free-text handlers \<open>verificar_token_bot\<close>,
  \<open>processar_nome_plano\<close> and \<open>processar_preco_plano\<close>, and every session whose
  \<open>waiting_for\<close> tag is not the tag the handler expects, the handler returns at its guard:
  nothing is sent and the whole state (session, scratch entities, shared data, store) is
  as before.
\<close>

theorem free_text_handlers_pass_through:
  "(waiting_for (user_data w) \<noteq> Some ''bot_token'' \<longrightarrow> verificar_token_bot msg w = w) \<and>
   (waiting_for (user_data w) \<noteq> Some ''plan_name'' \<longrightarrow>
      processar_nome_plano msg w = (Returned, w)) \<and>
   (waiting_for (user_data w) \<noteq> Some ''plan_price'' \<longrightarrow>
      processar_preco_plano msg w = (Returned, w))"
  by (simp add: verificar_token_bot_def processar_nome_plano_def processar_preco_plano_def)

theorem free_text_handlers_pass_through_witness:
  "waiting_for (user_data idle_world) \<noteq> Some ''bot_token'' \<and>
   waiting_for (user_data idle_world) \<noteq> Some ''plan_name'' \<and>
   waiting_for (user_data idle_world) \<noteq> Some ''plan_price'' \<and>
   verificar_token_bot (cps ''hello'') idle_world = idle_world \<and>
   processar_nome_plano (cps ''hello'') idle_world = (Returned, idle_world) \<and>
   processar_preco_plano (cps ''hello'') idle_world = (Returned, idle_world)"
  using free_text_handlers_pass_through [where w = idle_world and msg = "cps ''hello''"]
  by (simp add: idle_world_def)

text \<open>
  Claim C8, as amended. A back or cancel button only renders the screen of its target:
  the handlers behind these buttons (\<open>menu_callback\<close>, \<open>configurar_mensagens\<close>,
  \<open>configurar_planos\<close>, \<open>configurar_canal\<close>, and no handler at all for \<open>menu_bot\<close>)
  leave the session as it was, so the \<open>waiting_for\<close> tag and the scratch plan stay.
\<close>

theorem back_actions_keep_session:
  "user_data (back_action data w) = user_data w \<and>
   user_data (menu_callback w) = user_data w \<and>
   user_data (configurar_mensagens w) = user_data w \<and>
   user_data (snd (configurar_planos w)) = user_data w \<and>
   user_data (configurar_canal w) = user_data w"
  by (simp add: back_action_def menu_callback_def configurar_mensagens_def
        configurar_planos_def configurar_canal_def Let_def)

text \<open>
  The claim as written fails: after \<open>adicionar_plano\<close>, pressing Cancelar (callback data
  \<open>config_planos\<close>) leaves the tag \<open>plan_name\<close> and the empty scratch plan in place.
\<close>

theorem cancel_keeps_state_counterexample:
  "waiting_for (user_data (back_action ''config_planos'' (adicionar_plano idle_world)))
     = Some ''plan_name'' \<and>
   new_plan (user_data (back_action ''config_planos'' (adicionar_plano idle_world)))
     = Some empty_plan"
  by (simp add: back_action_def configurar_planos_def adicionar_plano_def Let_def idle_world_def)

text \<open>
  \<open>gerar_codigo_canal\<close> on any input: the guard resets the table, then building the entry
  raises NameError, so the table is left empty and no screen is rendered.
\<close>

theorem gerar_codigo_canal_raises:
  "gerar_codigo_canal uid codigo now w =
     (Raised NameError,
      (emit Answer w)\<lparr>bot_data := (bot_data w)\<lparr>codigos_validacao := Some Map.empty\<rparr>\<rparr>)"
  by (simp add: gerar_codigo_canal_def Let_def not_hasattr_codigos time_unbound)

text \<open>
  Claim C9: every call of \<open>gerar_codigo_canal\<close> replaces the whole code table by a fresh
  mapping and then stores the new code, so that afterwards the table holds exactly that
  code. The code does not get that far: on a table holding another user's code, the call
  for code \<open>ZZ99YY88\<close> ends in NameError with the table empty.
\<close>

theorem gerar_codigo_canal_empties_table:
  "fst (gerar_codigo_canal 7 (cps ''ZZ99YY88'') 1000 coded_world) = Raised NameError \<and>
   codigos_validacao (bot_data (snd (gerar_codigo_canal 7 (cps ''ZZ99YY88'') 1000 coded_world)))
     = Some Map.empty \<and>
   outbox (snd (gerar_codigo_canal 7 (cps ''ZZ99YY88'') 1000 coded_world)) = [Answer]"
  by (simp add: gerar_codigo_canal_def Let_def not_hasattr_codigos time_unbound
        coded_world_def idle_world_def)

text \<open>\<open>validar_codigo_canal\<close> returns at its first statement, whatever the table holds.\<close>

lemma validar_codigo_canal_noop: "validar_codigo_canal text ch now w = w"
  by (simp add: validar_codigo_canal_def not_hasattr_codigos)

text \<open>
  Claim C4: a redemption after expiry removes the code; a redemption before expiry creates
  one ManagedGroup, notifies the owner and deletes the code. On the code, a message equal
  to a stored code changes nothing, after expiry (time 6000) as before it (time 1000): the
  code stays in the table, nothing is sent, no group is stored.
\<close>

theorem validar_codigo_canal_ignores_codes:
  "validar_codigo_canal (cps ''AB12CD34'') some_chat 6000 coded_world = coded_world \<and>
   validar_codigo_canal (cps ''AB12CD34'') some_chat 1000 coded_world = coded_world \<and>
   (case codigos_validacao (bot_data coded_world) of None \<Rightarrow> None | Some t \<Rightarrow> t (cps ''AB12CD34''))
     = Some \<lparr>ci_user_id = 42, ci_bot_id = 0, expira = 5000\<rparr>"
  by (simp add: validar_codigo_canal_def not_hasattr_codigos coded_world_def idle_world_def)


section \<open>The token format\<close>

lemma re_match_Rep:
  "re_match (Rep n c # ps) s =
     (\<exists>body rest. s = body @ rest \<and> length body = n \<and> (\<forall>x\<in>set body. cls_mem c x) \<and>
        re_match ps rest)"
proof (induction n arbitrary: s)
  case 0
  then show ?case by simp
next
  case (Suc n)
  show ?case
  proof (cases s)
    case Nil
    then show ?thesis by simp
  next
    case (Cons x xs)
    show ?thesis
    proof
      assume "re_match (Rep (Suc n) c # ps) s"
      then have x: "cls_mem c x" and "re_match (Rep n c # ps) xs" using Cons by simp_all
      then obtain body rest where b: "xs = body @ rest" "length body = n"
          "\<forall>y\<in>set body. cls_mem c y" "re_match ps rest"
        using Suc.IH by blast
      have "s = (x # body) @ rest" using Cons b(1) by simp
      moreover have "length (x # body) = Suc n" using b(2) by simp
      moreover have "\<forall>y\<in>set (x # body). cls_mem c y" using x b(3) by simp
      ultimately show "\<exists>body rest. s = body @ rest \<and> length body = Suc n \<and>
          (\<forall>x\<in>set body. cls_mem c x) \<and> re_match ps rest"
        using b(4) by blast
    next
      assume "\<exists>body rest. s = body @ rest \<and> length body = Suc n \<and>
          (\<forall>x\<in>set body. cls_mem c x) \<and> re_match ps rest"
      then obtain body rest where b: "s = body @ rest" "length body = Suc n"
          "\<forall>y\<in>set body. cls_mem c y" "re_match ps rest" by blast
      from b(2) obtain y ys where ys: "body = y # ys" "length ys = n"
        by (cases body) simp_all
      have "x = y" and "xs = ys @ rest" using Cons b(1) ys(1) by simp_all
      moreover have "re_match (Rep n c # ps) (ys @ rest)"
        using Suc.IH [of "ys @ rest"] ys b(3) b(4) by auto
      ultimately show "re_match (Rep (Suc n) c # ps) s"
        using Cons b(3) ys(1) by simp
    qed
  qed
qed

lemma re_match_Plus:
  "re_match (Plus c # ps) s =
     (\<exists>ds rest. s = ds @ rest \<and> ds \<noteq> [] \<and> (\<forall>x\<in>set ds. cls_mem c x) \<and> re_match ps rest)"
proof (induction s)
  case Nil
  then show ?case by simp
next
  case (Cons x xs)
  show ?case
  proof
    assume m: "re_match (Plus c # ps) (x # xs)"
    then have x: "cls_mem c x" by simp
    from m have "re_match (Plus c # ps) xs \<or> re_match ps xs" by simp
    then show "\<exists>ds rest. x # xs = ds @ rest \<and> ds \<noteq> [] \<and> (\<forall>x\<in>set ds. cls_mem c x) \<and>
        re_match ps rest"
    proof
      assume "re_match (Plus c # ps) xs"
      then obtain ds rest where d: "xs = ds @ rest" "\<forall>y\<in>set ds. cls_mem c y" "re_match ps rest"
        using Cons.IH by blast
      have "x # xs = (x # ds) @ rest" using d(1) by simp
      moreover have "\<forall>y\<in>set (x # ds). cls_mem c y" using x d(2) by simp
      ultimately show ?thesis using d(3) by blast
    next
      assume "re_match ps xs"
      moreover have "x # xs = [x] @ xs" by simp
      moreover have "\<forall>y\<in>set [x]. cls_mem c y" using x by simp
      ultimately show ?thesis by blast
    qed
  next
    assume "\<exists>ds rest. x # xs = ds @ rest \<and> ds \<noteq> [] \<and> (\<forall>x\<in>set ds. cls_mem c x) \<and>
        re_match ps rest"
    then obtain ds rest where d: "x # xs = ds @ rest" "ds \<noteq> []"
        "\<forall>y\<in>set ds. cls_mem c y" "re_match ps rest" by blast
    from d(2) obtain y ys where ys: "ds = y # ys" by (cases ds) simp_all
    have xy: "x = y" "xs = ys @ rest" using d(1) ys by simp_all
    have cx: "cls_mem c x" using d(3) ys xy by simp
    show "re_match (Plus c # ps) (x # xs)"
    proof (cases "ys = []")
      case True
      then show ?thesis using cx xy d(4) by simp
    next
      case False
      have "\<forall>y\<in>set ys. cls_mem c y" using d(3) ys by simp
      then have "\<exists>ds rest. xs = ds @ rest \<and> ds \<noteq> [] \<and> (\<forall>x\<in>set ds. cls_mem c x) \<and>
          re_match ps rest"
        using False xy(2) d(4) by blast
      then have "re_match (Plus c # ps) xs" using Cons.IH by simp
      then show ?thesis using cx by simp
    qed
  qed
qed

lemma re_match_Dollar: "re_match [Dollar] s = (s = [] \<or> s = [newline])"
  by simp

lemma re_match_token_tail:
  "re_match [Lit 58, Rep 35 TokenChar, Dollar] rest =
     (\<exists>body r3. rest = 58 # body @ r3 \<and> length body = 35 \<and>
        (\<forall>x\<in>set body. x \<in> set (cps token_chars)) \<and> (r3 = [] \<or> r3 = [newline]))"
proof (cases rest)
  case Nil
  then show ?thesis by simp
next
  case (Cons x xs)
  have "re_match [Lit 58, Rep 35 TokenChar, Dollar] (x # xs) =
          (x = 58 \<and> re_match [Rep 35 TokenChar, Dollar] xs)"
    by simp
  also have "\<dots> = (x = 58 \<and> (\<exists>body r3. xs = body @ r3 \<and> length body = 35 \<and>
        (\<forall>x\<in>set body. x \<in> set (cps token_chars)) \<and> (r3 = [] \<or> r3 = [newline])))"
    by (simp only: re_match_Rep re_match_Dollar cls_mem.simps)
  also have "\<dots> = (\<exists>body r3. x # xs = 58 # body @ r3 \<and> length body = 35 \<and>
        (\<forall>x\<in>set body. x \<in> set (cps token_chars)) \<and> (r3 = [] \<or> r3 = [newline]))"
    by auto
  finally show ?thesis using Cons by simp
qed

lemma is_valid_bot_token_iff: "is_valid_bot_token s = token_format s"
proof -
  have "is_valid_bot_token s =
      (\<exists>ds rest. s = ds @ rest \<and> ds \<noteq> [] \<and> (\<forall>x\<in>set ds. is_decimal x) \<and>
         (\<exists>body r3. rest = 58 # body @ r3 \<and> length body = 35 \<and>
            (\<forall>x\<in>set body. x \<in> set (cps token_chars)) \<and> (r3 = [] \<or> r3 = [newline])))"
    unfolding is_valid_bot_token_def token_pattern_def
    by (simp only: re_match_Plus re_match_token_tail cls_mem.simps)
  also have "\<dots> = token_format s"
    unfolding token_format_def by (rule iffI; (elim exE conjE disjE; force))
  finally show ?thesis .
qed


lemma is_decimal_ascii: "cp < 0x660 \<Longrightarrow> is_decimal cp = (48 \<le> cp \<and> cp < 58)"
  by (auto simp: is_decimal_def decimal_value_def nd_zeros_def)

lemma arabic_digits: "is_decimal 0x661" "is_decimal 0x662" "is_decimal 0x663"
  by (simp_all add: is_decimal_def decimal_value_def nd_zeros_def)

lemma valid_token_length: "is_valid_bot_token s \<Longrightarrow> 37 \<le> length s"
  by (auto simp: is_valid_bot_token_iff token_format_def Suc_le_eq)

lemma valid_token_head: "is_valid_bot_token (x # xs) \<Longrightarrow> is_decimal x"
  by (simp add: is_valid_bot_token_def token_pattern_def)

lemma literal_rejected:
  "\<not> is_valid_bot_token (cps ''123456789:ABCDefGhIJKlmNoPQRsTUVwxyZ'')"
  using valid_token_length [of "cps ''123456789:ABCDefGhIJKlmNoPQRsTUVwxyZ''"]
  by (auto simp: cps_def)

lemma short_rejected: "\<not> is_valid_bot_token (cps ''123:short'')"
  using valid_token_length [of "cps ''123:short''"] by (auto simp: cps_def)

lemma letters_rejected:
  "\<not> is_valid_bot_token (cps ''abc:ABCDefGhIJKlmNoPQRsTUVwxyZ...'')"
  "\<not> is_valid_bot_token (cps ''abc:ABCDefGhIJKlmNoPQRsTUVwxyZ012345678'')"
proof -
  have a: "\<not> is_decimal 97" by (simp add: is_decimal_ascii)
  have "cps ''abc:ABCDefGhIJKlmNoPQRsTUVwxyZ...'' = 97 # cps ''bc:ABCDefGhIJKlmNoPQRsTUVwxyZ...''"
    by (simp add: cps_def)
  then show "\<not> is_valid_bot_token (cps ''abc:ABCDefGhIJKlmNoPQRsTUVwxyZ...'')"
    using a valid_token_head by metis
  have "cps ''abc:ABCDefGhIJKlmNoPQRsTUVwxyZ012345678'' =
      97 # cps ''bc:ABCDefGhIJKlmNoPQRsTUVwxyZ012345678''"
    by (simp add: cps_def)
  then show "\<not> is_valid_bot_token (cps ''abc:ABCDefGhIJKlmNoPQRsTUVwxyZ012345678'')"
    using a valid_token_head by metis
qed

lemma good_token_accepted: "is_valid_bot_token good_token"
proof -
  have d: "\<forall>c\<in>set (cps ''123456789''). is_decimal c"
    by (simp add: cps_def is_decimal_ascii)
  have b: "\<forall>c\<in>set (cps ''ABCDefGhIJKlmNoPQRsTUVwxyZ012345678''). c \<in> set (cps token_chars)"
    by (simp add: cps_def token_chars_def)
  have l: "length (cps ''ABCDefGhIJKlmNoPQRsTUVwxyZ012345678'') = 35" "cps ''123456789'' \<noteq> []"
    by (simp_all add: cps_def)
  have g: "good_token = cps ''123456789'' @ 58 # cps ''ABCDefGhIJKlmNoPQRsTUVwxyZ012345678''"
    by (simp add: good_token_def cps_def)
  have "token_format good_token"
    unfolding token_format_def using d b l g by blast
  then show ?thesis by (simp add: is_valid_bot_token_iff)
qed

lemma arabic_token_accepted: "is_valid_bot_token arabic_token"
proof -
  have d: "\<forall>c\<in>set [0x661, 0x662, 0x663 :: nat]. is_decimal c"
    by (simp add: arabic_digits)
  have b: "\<forall>c\<in>set (replicate 35 (65::nat)). c \<in> set (cps token_chars)"
    by (simp add: cps_def token_chars_def)
  have l: "length (replicate 35 (65::nat)) = 35" "[0x661, 0x662, 0x663 :: nat] \<noteq> []"
    by simp_all
  have g: "arabic_token = [0x661, 0x662, 0x663] @ 58 # replicate 35 65"
    by (simp add: arabic_token_def cps_def)
  have "token_format arabic_token"
    unfolding token_format_def using d b l g by blast
  then show ?thesis by (simp add: is_valid_bot_token_iff)
qed

text \<open>
  Claim C7, as amended. The validator accepts exactly the strings of the pattern
  \<open>^\d+:[A-Za-z0-9_-]{35}$\<close> as Python reads it: one or more decimal digits of any
  script, a colon and exactly 35 characters of the ASCII class, optionally followed by
  one final newline. The literal \<open>123456789:ABCDefGhIJKlmNoPQRsTUVwxyZ\<close> has 26
  characters after the colon and is rejected, as are \<open>123:short\<close> and tokens starting
  with \<open>abc:\<close>; nine digits, a colon and 35 characters of the class are accepted, and
  so are three Arabic-Indic digits, a colon and 35 letters.
\<close>

theorem token_validator_language:
  "(is_valid_bot_token s \<longleftrightarrow> token_format s) \<and>
   \<not> is_valid_bot_token (cps ''123456789:ABCDefGhIJKlmNoPQRsTUVwxyZ'') \<and>
   \<not> is_valid_bot_token (cps ''123:short'') \<and>
   \<not> is_valid_bot_token (cps ''abc:ABCDefGhIJKlmNoPQRsTUVwxyZ...'') \<and>
   \<not> is_valid_bot_token (cps ''abc:ABCDefGhIJKlmNoPQRsTUVwxyZ012345678'') \<and>
   is_valid_bot_token good_token \<and>
   is_valid_bot_token arabic_token"
  using is_valid_bot_token_iff [of s] literal_rejected short_rejected letters_rejected
    good_token_accepted arabic_token_accepted
  by blast

theorem token_validator_language_witness:
  "is_valid_bot_token good_token \<and> token_format good_token \<and>
   is_valid_bot_token arabic_token \<and> token_format arabic_token"
  using token_validator_language [of good_token] token_validator_language [of arabic_token]
  by blast

text \<open>
  The claim as written fails on its own example: the literal of the error message is not
  a valid token.
\<close>

theorem token_literal_counterexample:
  "\<not> is_valid_bot_token (cps ''123456789:ABCDefGhIJKlmNoPQRsTUVwxyZ'') \<and>
   length ''ABCDefGhIJKlmNoPQRsTUVwxyZ'' = 26"
  using literal_rejected by simp

section \<open>The token prompt and the payment check\<close>

text \<open>
  Claim C3, as amended. For every session whose tag is \<open>bot_token\<close> and every text: if the
  text does not match the token format, the handler replies with the invalid-token
  prompt; if it matches, the handler replies with the start message and edits it into
  the success screen, and the tag is absent afterwards. In neither case does the handler
  write to the store (no ManagedBot is persisted) or to the shared data.
\<close>

theorem verificar_token_bot_waiting:
  "waiting_for (user_data w) = Some ''bot_token'' \<longrightarrow>
     store (verificar_token_bot msg w) = store w \<and>
     bot_data (verificar_token_bot msg w) = bot_data w \<and>
     (\<not> is_valid_bot_token msg \<longrightarrow>
        outbox (verificar_token_bot msg w) = outbox w @ [Reply TokenInvalid []]) \<and>
     (is_valid_bot_token msg \<longrightarrow>
        waiting_for (user_data (verificar_token_bot msg w)) = None \<and>
        outbox (verificar_token_bot msg w) = outbox w @
          [Reply BotStarting [],
           EditReply (BotStarted ''SeuBot'')
             [[Url ''Iniciar @SeuBot'' ''https://t.me/SeuBot''],
              [Callback ''Configurar bot'' ''config_bot''],
              [Callback ''Voltar ao menu'' ''menu_principal'']]])"
  by (simp add: verificar_token_bot_def is_valid_bot_token_def Let_def)

theorem verificar_token_bot_waiting_witness:
  "waiting_for (user_data (criar_bot_callback idle_world)) = Some ''bot_token'' \<and>
   is_valid_bot_token good_token \<and> \<not> is_valid_bot_token (cps ''123:short'') \<and>
   waiting_for (user_data (verificar_token_bot good_token (criar_bot_callback idle_world))) = None \<and>
   managed_bots (store (verificar_token_bot good_token (criar_bot_callback idle_world))) = [] \<and>
   outbox (verificar_token_bot (cps ''123:short'') (criar_bot_callback idle_world)) =
     outbox (criar_bot_callback idle_world) @ [Reply TokenInvalid []]"
proof -
  have w: "waiting_for (user_data (criar_bot_callback idle_world)) = Some ''bot_token''"
    by (simp add: criar_bot_callback_def)
  have s: "store (criar_bot_callback idle_world) = empty_db"
    by (simp add: criar_bot_callback_def idle_world_def)
  have g: "is_valid_bot_token good_token" by (rule good_token_accepted)
  have b: "\<not> is_valid_bot_token (cps ''123:short'')" by (rule short_rejected)
  show ?thesis
    using verificar_token_bot_waiting [where w = "criar_bot_callback idle_world" and msg = good_token]
      verificar_token_bot_waiting [where w = "criar_bot_callback idle_world" and msg = "cps ''123:short''"]
      w g b
    by (simp add: s empty_db_def)
qed

text \<open>
  The claim as written fails: after the create-bot action, the invalid text \<open>123:short\<close>
  leaves no tag (the session does not stay in \<open>bot_token\<close>), and a valid token leaves
  the table of managed bots empty.
\<close>

theorem invalid_token_clears_tag_counterexample:
  "waiting_for (user_data (criar_bot_callback idle_world)) = Some ''bot_token'' \<and>
   \<not> is_valid_bot_token (cps ''123:short'') \<and>
   waiting_for (user_data (verificar_token_bot (cps ''123:short'') (criar_bot_callback idle_world))) = None \<and>
   is_valid_bot_token good_token \<and>
   managed_bots (store (verificar_token_bot good_token (criar_bot_callback idle_world))) = []"
proof -
  have g: "re_match token_pattern good_token"
    using good_token_accepted by (simp add: is_valid_bot_token_def)
  have b: "\<not> re_match token_pattern (cps ''123:short'')"
    using short_rejected by (simp add: is_valid_bot_token_def)
  show ?thesis
    using g b
    by (simp add: verificar_token_bot_def criar_bot_callback_def is_valid_bot_token_def Let_def
          idle_world_def empty_db_def)
qed

lemma split_on_not_Nil: "split_on sep s \<noteq> []"
  by (induction s) (auto split: list.splits)

lemma split_on_append_sep:
  "sep \<notin> set p \<Longrightarrow> split_on sep (p @ sep # rest) = p # split_on sep rest"
  by (induction p) (auto split: list.splits simp: split_on_not_Nil)

lemma check_payment_third:
  assumes "starts_with ''check_payment_'' data"
  shows "\<exists>tx. index (split_on (CHR ''_'') data) 2 = Some tx"
proof -
  from assms obtain rest where d: "data = ''check_payment_'' @ rest"
    by (metis append_take_drop_id starts_with_def)
  have "data = ''check'' @ CHR ''_'' # (''payment'' @ CHR ''_'' # rest)" using d by simp
  then have "split_on (CHR ''_'') data = ''check'' # ''payment'' # split_on (CHR ''_'') rest"
    by (simp only: split_on_append_sep) (simp add: split_on_append_sep)
  moreover obtain h t where "split_on (CHR ''_'') rest = h # t"
    using split_on_not_Nil [of "CHR ''_''" rest] by (cases "split_on (CHR ''_'') rest") auto
  ultimately show ?thesis by (simp add: index_def)
qed


lemma str_int_1000: "str_int 1000 = ''1000''"
  by (simp add: str_int_def str_nat.simps digits_def)

lemma to_ascii_cps:
  "\<forall>c\<in>set s. of_char c < (127::nat) \<Longrightarrow> map to_ascii (cps s) = s"
  by (induction s) (simp_all add: cps_def to_ascii_def)

lemma py_int_1: "py_int (cps ''1'') = Some 1"
proof -
  have "map to_ascii (cps ''1'') = ''1''" by (rule to_ascii_cps) simp
  then show ?thesis
    by (simp add: py_int_def int_of_ascii_def strip_def is_space_def space_chars_def
          take_sign_def is_digit_def digits_def digit_val_def)
qed

lemma py_trunc_1000: "py_trunc 1000 = 1000"
  by (simp add: py_trunc_def)

lemma paid_world_pending:
  "pagamentos (bot_data paid_world) =
     Some [''TX1000'' \<mapsto> \<lparr>pg_user_id = 42, pg_plano_id = 1, valor = round_double (199 / 10),
                             status = ''pending'', created_at = 1001\<rparr>]"
  by (simp add: paid_world_def processar_pagamento_def Let_def starts_with_def index_def
        py_int_1 py_trunc_1000 str_int_1000 idle_world_def demo_plan_def not_hasattr_pagamentos)

text \<open>
  Claim C10. For every callback data, so for every transaction id, \<open>verificar_pagamento\<close>
  reads the payments through \<open>getattr\<close> on the dictionary and sees an empty mapping:
  it leaves the shared data, hence every stored payment record, unchanged, and for data
  starting with \<open>check_payment_\<close> it reports the payment as not found. No record becomes
  approved, even one \<open>processar_pagamento\<close> has just stored under that id.
\<close>

theorem verificar_pagamento_never_finds:
  "bot_data (snd (verificar_pagamento data w)) = bot_data w \<and>
   user_data (snd (verificar_pagamento data w)) = user_data w \<and>
   (starts_with ''check_payment_'' data \<longrightarrow>
      verificar_pagamento data w =
        (Returned, emit (EditMessage PaymentNotFound []) (emit Answer w)))"
proof (cases "starts_with ''check_payment_'' data")
  case True
  then obtain tx where "index (split_on (CHR ''_'') data) 2 = Some tx"
    using check_payment_third by blast
  then show ?thesis
    using True by (simp add: verificar_pagamento_def Let_def not_hasattr_pagamentos)
next
  case False
  then show ?thesis by (simp add: verificar_pagamento_def Let_def)
qed

theorem verificar_pagamento_never_finds_witness:
  "starts_with ''check_payment_'' ''check_payment_TX1000'' \<and>
   pagamentos (bot_data paid_world) =
     Some [''TX1000'' \<mapsto> \<lparr>pg_user_id = 42, pg_plano_id = 1, valor = round_double (199 / 10),
                             status = ''pending'', created_at = 1001\<rparr>] \<and>
   verificar_pagamento ''check_payment_TX1000'' paid_world =
     (Returned, emit (EditMessage PaymentNotFound []) (emit Answer paid_world)) \<and>
   bot_data (snd (verificar_pagamento ''check_payment_TX1000'' paid_world)) = bot_data paid_world"
proof -
  have s: "starts_with ''check_payment_'' ''check_payment_TX1000''"
    by (simp add: starts_with_def)
  show ?thesis
    using verificar_pagamento_never_finds
            [where data = "''check_payment_TX1000''" and w = paid_world] s paid_world_pending
    by blast
qed


section \<open>The price step of the plan flow\<close>

lemma round_double_0 [simp]: "round_double 0 = Finite 0"
  by (simp add: round_double_def)

lemma round_half_even_nonneg: "0 \<le> x \<Longrightarrow> 0 \<le> round_half_even x"
  by (auto simp: round_half_even_def Let_def)

lemma pow2_pos [simp]: "0 < pow2 e"
  by (simp add: pow2_def)

lemma round_double_neg: "q < 0 \<Longrightarrow> le_zero (round_double q)"
proof -
  assume q: "q < 0"
  define e where "e = max (floor_log2 \<bar>q\<bar> - 52) (- 1074)"
  have p: "0 < pow2 e" by simp
  then have "0 \<le> \<bar>q\<bar> / pow2 e" by (intro divide_nonneg_pos) simp_all
  then have "0 \<le> round_half_even (\<bar>q\<bar> / pow2 e)" by (rule round_half_even_nonneg)
  then have "0 \<le> rat_of_int (round_half_even (\<bar>q\<bar> / pow2 e)) * pow2 e"
    using p by (intro mult_nonneg_nonneg) (simp_all add: less_imp_le)
  then show ?thesis using q by (simp add: round_double_def Let_def e_def)
qed

lemma ilog2_ge: "2 ^ m \<le> n \<Longrightarrow> m \<le> ilog2 n"
proof (induction m arbitrary: n)
  case 0
  then show ?case by simp
next
  case (Suc m)
  then have "2 ^ m \<le> n div 2" by simp
  then have "m \<le> ilog2 (n div 2)" by (rule Suc.IH)
  moreover have "2 \<le> n"
  proof -
    have "(1::nat) \<le> 2 ^ m" by simp
    moreover have "2 * 2 ^ m \<le> n" using Suc.prems by simp
    ultimately show ?thesis by linarith
  qed
  ultimately show ?case by (subst ilog2.simps) simp
qed

lemma ilog2_ceiling:
  assumes "(2::rat) ^ n < x"
  shows "n \<le> ilog2 (nat (\<lceil>x\<rceil> - 1))"
proof -
  have "x \<le> of_int \<lceil>x\<rceil>" by (rule le_of_int_ceiling)
  with assms have "(2::rat) ^ n < of_int \<lceil>x\<rceil>" by (rule less_le_trans)
  moreover have "(2::rat) ^ n = rat_of_int (2 ^ n)" by simp
  ultimately have "rat_of_int (2 ^ n) < of_int \<lceil>x\<rceil>" by (simp only:)
  then have "(2::int) ^ n < \<lceil>x\<rceil>" by (simp only: of_int_less_iff)
  then have "int (2 ^ n) \<le> \<lceil>x\<rceil> - 1" by simp
  then have "(2::nat) ^ n \<le> nat (\<lceil>x\<rceil> - 1)" by linarith
  then show ?thesis by (rule ilog2_ge)
qed

text \<open>A positive value below \<open>2 ^ -1075\<close> rounds to zero.\<close>

lemma round_double_underflow:
  assumes "0 < a" and "a < pow2 (- 1075)"
  shows "round_double a = Finite 0"
proof -
  have a1: "a < 1"
  proof -
    have "pow2 (- 1075) \<le> 1" by (simp add: pow2_def)
    then show ?thesis using assms(2) by simp
  qed
  have "1075 \<le> ilog2 (nat (\<lceil>1 / a\<rceil> - 1))"
    using ilog2_ceiling [of 1075 "1 / a"] assms by (simp add: pow2_def field_simps)
  then have k: "floor_log2 a \<le> - 1076" using a1 by (simp add: floor_log2_def)
  have e: "max (floor_log2 a - 52) (- 1074) = - 1074" using k by simp
  have x: "a / pow2 (- 1074) < 1 / 2"
    using assms(2) by (simp add: pow2_def field_simps)
  have "round_half_even (a / pow2 (- 1074)) = 0"
    using round_half_even_down [of 0 "a / pow2 (- 1074)"] x assms(1) by simp
  moreover have "\<not> pow2 1024 \<le> 0" by (simp add: not_le)
  ultimately show ?thesis
    using assms(1) by (simp add: round_double_def Let_def e)
qed

lemma digit_chars:
  assumes "is_digit c"
  shows "c \<noteq> CHR '',''" "c \<noteq> CHR ''.''" "c \<noteq> CHR ''_''" "c \<noteq> CHR ''+''" "c \<noteq> CHR ''-''"
    "c \<noteq> CHR ''i''" "c \<noteq> CHR ''I''" "c \<noteq> CHR ''n''" "c \<noteq> CHR ''N''" "\<not> is_space c"
    "of_char c \<noteq> (44::nat)" "of_char c < (127::nat)"
  using assms by (auto simp: is_digit_def digits_def is_space_def space_chars_def)

lemma replace_digits: "\<forall>c\<in>set a. is_digit c \<Longrightarrow> replace_char 44 46 (cps a) = cps a"
  by (induction a) (auto simp: replace_char_def cps_def digit_chars)

lemma replace_decimal:
  assumes "\<forall>c\<in>set a. is_digit c" "\<forall>c\<in>set b. is_digit c" "sep = CHR '','' \<or> sep = CHR ''.''"
  shows "replace_char 44 46 (cps (a @ sep # b)) = cps (a @ CHR ''.'' # b)"
proof -
  have "replace_char 44 46 (cps (a @ sep # b)) =
      replace_char 44 46 (cps a) @ 46 # replace_char 44 46 (cps b)"
    using assms(3) by (auto simp: replace_char_def cps_def)
  then show ?thesis using assms(1,2) by (simp add: replace_digits) (simp add: cps_def)
qed

lemma strip_id:
  assumes "s \<noteq> []" "\<not> is_space (hd s)" "\<not> is_space (last s)"
  shows "strip s = s"
proof -
  have 1: "dropWhile is_space s = s" using assms(1,2) by (cases s) simp_all
  obtain y ys where r: "rev s = y # ys" using assms(1) by (cases "rev s") auto
  then have "y = last s" using assms(1) by (metis hd_rev list.sel(1))
  then have "dropWhile is_space (y # ys) = y # ys" using assms(3) by simp
  then have 2: "dropWhile is_space (rev s) = rev s" by (simp only: r)
  show ?thesis by (simp add: strip_def 1 2)
qed

lemma underscores_ok_none:
  "CHR ''_'' \<notin> set s \<Longrightarrow> prev \<noteq> CHR ''_'' \<Longrightarrow> underscores_ok prev s"
  by (induction s arbitrary: prev) auto

lemma decimal_number:
  assumes a: "\<forall>c\<in>set a. is_digit c" and b: "\<forall>c\<in>set b. is_digit c" and ne: "a \<noteq> []"
  shows "parse_number (a @ CHR ''.'' # b) =
           Some (of_nat (digits_val 0 (a @ b)) / 10 ^ length b)"
proof -
  have nd: "\<not> is_digit (CHR ''.'')" by (simp add: is_digit_def digits_def)
  have t1: "takeWhile is_digit (a @ CHR ''.'' # b) = a"
    using a nd by (simp add: takeWhile_append2)
  have d1: "dropWhile is_digit (a @ CHR ''.'' # b) = CHR ''.'' # b"
    using a nd by (simp add: dropWhile_append2)
  have t2: "takeWhile is_digit b = b" using b by (simp add: takeWhile_eq_all_conv)
  have d2: "dropWhile is_digit b = []" using b by simp
  show ?thesis
    using ne by (simp add: parse_number_def Let_def t1 d1 t2 d2 parse_exponent_def scale10_def)
qed

lemma decimal_float:
  assumes a: "\<forall>c\<in>set a. is_digit c" and b: "\<forall>c\<in>set b. is_digit c"
    and ne: "a \<noteq> []" "b \<noteq> []"
  shows "float_of_ascii (a @ CHR ''.'' # b) =
           Some (round_double (of_nat (digits_val 0 (a @ b)) / 10 ^ length b))"
proof -
  let ?s = "a @ CHR ''.'' # b"
  obtain x xs where ax: "a = x # xs" using ne(1) by (cases a) auto
  have dx: "is_digit x" using a ax by simp
  have "is_digit (last b)" using b ne(2) by simp
  then have "\<not> is_space (last ?s)" using ne(2) by (simp add: digit_chars)
  moreover have "\<not> is_space (hd ?s)" using ax dx by (simp add: digit_chars)
  ultimately have st: "strip ?s = ?s" by (intro strip_id) simp_all
  have nu: "CHR ''_'' \<notin> set ?s" using a b by (auto dest: digit_chars(3))
  have uo: "underscores_ok (CHR 0x00) ?s" by (rule underscores_ok_none[OF nu]) simp
  have fl: "filter (\<lambda>c. c \<noteq> CHR ''_'') ?s = ?s" using nu by (intro filter_True) auto
  have ts: "take_sign ?s = (False, ?s)"
    using dx by (simp add: take_sign_def ax digit_chars)
  have kw: "\<not> ci_eq kw_inf ?s" "\<not> ci_eq kw_infinity ?s" "\<not> ci_eq kw_nan ?s"
    using dx by (simp_all add: ax kw_inf_def kw_infinity_def kw_nan_def digit_chars)
  show ?thesis
    unfolding float_of_ascii_def Let_def st fl ts
    using uo kw decimal_number[OF a b ne(1)] by simp
qed

lemma decimal_price:
  assumes a: "\<forall>c\<in>set a. is_digit c" and b: "\<forall>c\<in>set b. is_digit c"
    and ne: "a \<noteq> []" "b \<noteq> []" and sep: "sep = CHR '','' \<or> sep = CHR ''.''"
  shows "parse_price (cps (a @ sep # b)) =
           (if le_zero (round_double (of_nat (digits_val 0 (a @ b)) / 10 ^ length b)) then None
            else Some (round_double (of_nat (digits_val 0 (a @ b)) / 10 ^ length b)))"
proof -
  have "\<forall>c\<in>set (a @ CHR ''.'' # b). of_char c < (127::nat)"
    using a b by (auto simp: digit_chars)
  then have "map to_ascii (cps (a @ CHR ''.'' # b)) = a @ CHR ''.'' # b"
    by (rule to_ascii_cps)
  then show ?thesis
    by (simp add: parse_price_def py_float_def replace_decimal[OF a b sep]
          decimal_float[OF a b ne])
qed

lemmas ascii_eval = float_of_ascii_def strip_def is_space_def
  space_chars_def is_digit_def digits_def take_sign_def kw_inf_def kw_infinity_def kw_nan_def
  parse_number_def parse_exponent_def scale10_def digit_val_def Let_def

lemma price_19_90:
  "parse_price (cps ''19.90'') = Some (Finite (2800676018271027 / 140737488355328))"
  "parse_price (cps ''19,90'') = Some (Finite (2800676018271027 / 140737488355328))"
proof -
  have d: "\<forall>c\<in>set ''19''. is_digit c" "\<forall>c\<in>set ''90''. is_digit c"
    by (simp_all add: is_digit_def digits_def)
  have v: "rat_of_nat (digits_val 0 (''19'' @ ''90'')) / 10 ^ length ''90'' = 199 / 10"
    by (simp add: digit_val_def digits_def)
  show "parse_price (cps ''19.90'') = Some (Finite (2800676018271027 / 140737488355328))"
    using decimal_price [OF d, of "CHR ''.''"] by (simp only: v round_19_90) simp
  show "parse_price (cps ''19,90'') = Some (Finite (2800676018271027 / 140737488355328))"
    using decimal_price [OF d, of "CHR '',''"] by (simp only: v round_19_90) simp
qed

lemma price_rejections:
  "parse_price (cps ''0'') = None"
  "parse_price (cps ''-5'') = None"
  "parse_price (cps ''abc'') = None"
  "parse_price (cps ''1e-324'') = None"
proof -
  have r: "replace_char 44 46 (cps ''0'') = cps ''0''" "replace_char 44 46 (cps ''-5'') = cps ''-5''"
    "replace_char 44 46 (cps ''abc'') = cps ''abc''"
    "replace_char 44 46 (cps ''1e-324'') = cps ''1e-324''"
    by (simp_all add: replace_char_def cps_def)
  have t: "map to_ascii (cps ''0'') = ''0''" "map to_ascii (cps ''-5'') = ''-5''"
    "map to_ascii (cps ''abc'') = ''abc''" "map to_ascii (cps ''1e-324'') = ''1e-324''"
    by (rule to_ascii_cps, simp)+
  have f0: "float_of_ascii ''0'' = Some (Finite 0)" by (simp add: ascii_eval)
  have f5: "float_of_ascii ''-5'' = Some (round_double (- 5))" by (simp add: ascii_eval)
  have fa: "float_of_ascii ''abc'' = None" by (simp add: ascii_eval)
  have fe: "float_of_ascii ''1e-324'' = Some (round_double (1 / 10 ^ 324))"
    by (simp add: ascii_eval)
  have u: "round_double (1 / 10 ^ 324) = Finite 0"
    by (rule round_double_underflow) (simp_all add: pow2_def)
  show "parse_price (cps ''0'') = None" by (simp add: parse_price_def py_float_def r t f0)
  show "parse_price (cps ''-5'') = None"
    by (simp add: parse_price_def py_float_def r t f5 round_double_neg)
  show "parse_price (cps ''abc'') = None" by (simp add: parse_price_def py_float_def r t fa)
  show "parse_price (cps ''1e-324'') = None"
    by (simp only: parse_price_def py_float_def r t fe u option.case le_zero.simps) simp
qed

lemma parse_price_None:
  "parse_price msg = None \<longleftrightarrow>
     (case py_float (replace_char 44 46 msg) of None \<Rightarrow> True | Some v \<Rightarrow> le_zero v)"
  by (simp add: parse_price_def split: option.splits)

lemma price_rejected:
  assumes "waiting_for (user_data w) = Some ''plan_price''" "parse_price msg = None"
  shows "processar_preco_plano msg w = (Returned, emit (Reply PriceInvalid []) w)"
  using assms by (simp add: processar_preco_plano_def)

lemma price_accepted:
  assumes "waiting_for (user_data w) = Some ''plan_price''" "parse_price msg = Some v"
    "new_plan (user_data w) = Some p"
  shows "processar_preco_plano msg w =
     (Returned, set_waiting (Some ''plan_duration'')
        (emit (Reply AddPlanAskDuration duration_keyboard)
           (w\<lparr>user_data := (user_data w)\<lparr>new_plan := Some (p\<lparr>preco := Some v\<rparr>)\<rparr>\<rparr>)))"
  using assms by (simp add: processar_preco_plano_def Let_def)


text \<open>
  Claim C6. The price step takes \<open>float(text.replace(',', '.'))\<close> and rejects the input
  when that fails or when the float is \<open>\<le> 0\<close>. \<open>19.90\<close> and \<open>19,90\<close> both yield the
  float \<open>19.90\<close>, the double nearest to 199/10; \<open>0\<close>, \<open>-5\<close> and \<open>abc\<close> are rejected.
  Every decimal \<open>a.b\<close> or \<open>a,b\<close> of digits parses to the double nearest to its value and
  is accepted unless that double is \<open>\<le> 0\<close>, as it is for a value that underflows to
  \<open>0.0\<close> such as \<open>1e-324\<close>. In the state \<open>plan_price\<close> a rejected input is answered by
  the invalid-price prompt and leaves the state (so the tag \<open>plan_price\<close>) as it was; an
  accepted one is stored in the scratch plan and moves the tag to \<open>plan_duration\<close>.
\<close>

theorem price_parser:
  "parse_price (cps ''19.90'') = Some (Finite (2800676018271027 / 140737488355328)) \<and>
   parse_price (cps ''19,90'') = Some (Finite (2800676018271027 / 140737488355328)) \<and>
   round_double (199 / 10) = Finite (2800676018271027 / 140737488355328) \<and>
   parse_price (cps ''0'') = None \<and> parse_price (cps ''-5'') = None \<and>
   parse_price (cps ''abc'') = None \<and> parse_price (cps ''1e-324'') = None \<and>
   (parse_price msg = None \<longleftrightarrow>
      (case py_float (replace_char 44 46 msg) of None \<Rightarrow> True | Some v \<Rightarrow> le_zero v)) \<and>
   ((\<forall>c\<in>set a. is_digit c) \<and> (\<forall>c\<in>set b. is_digit c) \<and> a \<noteq> [] \<and> b \<noteq> [] \<and>
    (sep = CHR '','' \<or> sep = CHR ''.'') \<longrightarrow>
      parse_price (cps (a @ sep # b)) =
        (if le_zero (round_double (of_nat (digits_val 0 (a @ b)) / 10 ^ length b)) then None
         else Some (round_double (of_nat (digits_val 0 (a @ b)) / 10 ^ length b)))) \<and>
   (waiting_for (user_data w) = Some ''plan_price'' \<longrightarrow>
      (parse_price msg = None \<longrightarrow>
         processar_preco_plano msg w = (Returned, emit (Reply PriceInvalid []) w) \<and>
         waiting_for (user_data (snd (processar_preco_plano msg w))) = Some ''plan_price'') \<and>
      (\<forall>v p. parse_price msg = Some v \<and> new_plan (user_data w) = Some p \<longrightarrow>
         processar_preco_plano msg w =
           (Returned, set_waiting (Some ''plan_duration'')
              (emit (Reply AddPlanAskDuration duration_keyboard)
                 (w\<lparr>user_data := (user_data w)\<lparr>new_plan := Some (p\<lparr>preco := Some v\<rparr>)\<rparr>\<rparr>)))))"
proof (intro conjI impI allI)
  show "parse_price (cps ''19.90'') = Some (Finite (2800676018271027 / 140737488355328))"
    by (rule price_19_90)
  show "parse_price (cps ''19,90'') = Some (Finite (2800676018271027 / 140737488355328))"
    by (rule price_19_90)
  show "round_double (199 / 10) = Finite (2800676018271027 / 140737488355328)"
    by (rule round_19_90)
  show "parse_price (cps ''0'') = None" by (rule price_rejections)
  show "parse_price (cps ''-5'') = None" by (rule price_rejections)
  show "parse_price (cps ''abc'') = None" by (rule price_rejections)
  show "parse_price (cps ''1e-324'') = None" by (rule price_rejections)
  show "parse_price msg = None \<longleftrightarrow>
      (case py_float (replace_char 44 46 msg) of None \<Rightarrow> True | Some v \<Rightarrow> le_zero v)"
    by (rule parse_price_None)
next
  assume "(\<forall>c\<in>set a. is_digit c) \<and> (\<forall>c\<in>set b. is_digit c) \<and> a \<noteq> [] \<and> b \<noteq> [] \<and>
    (sep = CHR '','' \<or> sep = CHR ''.'')"
  then show "parse_price (cps (a @ sep # b)) =
        (if le_zero (round_double (of_nat (digits_val 0 (a @ b)) / 10 ^ length b)) then None
         else Some (round_double (of_nat (digits_val 0 (a @ b)) / 10 ^ length b)))"
    using decimal_price [of a b sep] by blast
next
  assume w: "waiting_for (user_data w) = Some ''plan_price''" and n: "parse_price msg = None"
  show "processar_preco_plano msg w = (Returned, emit (Reply PriceInvalid []) w)"
    by (rule price_rejected [OF w n])
  then show "waiting_for (user_data (snd (processar_preco_plano msg w))) = Some ''plan_price''"
    using w by simp
next
  fix v p
  assume w: "waiting_for (user_data w) = Some ''plan_price''"
    and h: "parse_price msg = Some v \<and> new_plan (user_data w) = Some p"
  show "processar_preco_plano msg w =
           (Returned, set_waiting (Some ''plan_duration'')
              (emit (Reply AddPlanAskDuration duration_keyboard)
                 (w\<lparr>user_data := (user_data w)\<lparr>new_plan := Some (p\<lparr>preco := Some v\<rparr>)\<rparr>\<rparr>)))"
    using price_accepted [OF w] h by blast
qed

lemma pricing_world_eq:
  "pricing_world = \<lparr>user_data = \<lparr>waiting_for = Some ''plan_price'',
       new_plan = Some (empty_plan\<lparr>nome := Some (cps ''Mensal'')\<rparr>), planos = None,
       welcome_text = None, bot_username = None, bot_id = None\<rparr>,
     bot_data = \<lparr>codigos_validacao = None, pagamentos = None\<rparr>,
     outbox = [Answer, EditMessage AddPlanAskName [[Callback ''Cancelar'' ''config_planos'']],
               Reply AddPlanAskPrice []],
     store = empty_db\<rparr>"
  by (simp add: pricing_world_def processar_nome_plano_def adicionar_plano_def Let_def
        idle_world_def emit_def set_waiting_def)

theorem price_parser_witness:
  "waiting_for (user_data pricing_world) = Some ''plan_price'' \<and>
   parse_price (cps ''abc'') = None \<and>
   waiting_for (user_data (snd (processar_preco_plano (cps ''abc'') pricing_world))) =
     Some ''plan_price'' \<and>
   parse_price (cps ''19,90'') = Some (Finite (2800676018271027 / 140737488355328)) \<and>
   new_plan (user_data (snd (processar_preco_plano (cps ''19,90'') pricing_world))) =
     Some (empty_plan\<lparr>nome := Some (cps ''Mensal''),
                      preco := Some (Finite (2800676018271027 / 140737488355328))\<rparr>) \<and>
   waiting_for (user_data (snd (processar_preco_plano (cps ''19,90'') pricing_world))) =
     Some ''plan_duration'' \<and>
   parse_price (cps (''19'' @ CHR '','' # ''90'')) =
     (if le_zero (round_double (of_nat (digits_val 0 (''19'' @ ''90'')) / 10 ^ length ''90''))
      then None
      else Some (round_double (of_nat (digits_val 0 (''19'' @ ''90'')) / 10 ^ length ''90'')))"
proof -
  have w: "waiting_for (user_data pricing_world) = Some ''plan_price''"
    and p: "new_plan (user_data pricing_world) = Some (empty_plan\<lparr>nome := Some (cps ''Mensal'')\<rparr>)"
    by (simp_all add: pricing_world_eq)
  have d: "(\<forall>c\<in>set ''19''. is_digit c) \<and> (\<forall>c\<in>set ''90''. is_digit c) \<and> ''19'' \<noteq> [] \<and>
      ''90'' \<noteq> [] \<and> (CHR '','' = CHR '','' \<or> CHR '','' = CHR ''.'')"
    by (simp add: is_digit_def digits_def)
  note r = price_parser [where msg = "cps ''abc''" and w = pricing_world and a = "''19''"
      and b = "''90''" and sep = "CHR '',''"]
  note a = price_parser [where msg = "cps ''19,90''" and w = pricing_world and a = "''19''"
      and b = "''90''" and sep = "CHR '',''"]
  have r1: "parse_price (cps ''abc'') = None" using r by blast
  have r2: "waiting_for (user_data (snd (processar_preco_plano (cps ''abc'') pricing_world))) =
      Some ''plan_price''" using r w r1 by blast
  have a1: "parse_price (cps ''19,90'') = Some (Finite (2800676018271027 / 140737488355328))"
    using a by blast
  have a2: "processar_preco_plano (cps ''19,90'') pricing_world =
      (Returned, set_waiting (Some ''plan_duration'')
         (emit (Reply AddPlanAskDuration duration_keyboard)
            (pricing_world\<lparr>user_data := (user_data pricing_world)\<lparr>new_plan :=
               Some ((empty_plan\<lparr>nome := Some (cps ''Mensal'')\<rparr>)\<lparr>preco :=
                 Some (Finite (2800676018271027 / 140737488355328))\<rparr>)\<rparr>\<rparr>)))"
    using a w a1 p by blast
  have a3: "parse_price (cps (''19'' @ CHR '','' # ''90'')) =
     (if le_zero (round_double (of_nat (digits_val 0 (''19'' @ ''90'')) / 10 ^ length ''90''))
      then None
      else Some (round_double (of_nat (digits_val 0 (''19'' @ ''90'')) / 10 ^ length ''90'')))"
    using a d by blast
  have n: "new_plan (user_data (snd (processar_preco_plano (cps ''19,90'') pricing_world))) =
     Some (empty_plan\<lparr>nome := Some (cps ''Mensal''),
                      preco := Some (Finite (2800676018271027 / 140737488355328))\<rparr>)"
    and t: "waiting_for (user_data (snd (processar_preco_plano (cps ''19,90'') pricing_world))) =
     Some ''plan_duration''"
    by (simp_all add: a2)
  show ?thesis
    using w r1 r2 a1 n t a3 by blast
qed

end
